theory Spec2Isabelle
  imports Main "HOL-Library.Word" "HOL-Library.AList"
begin

section \<open>Strings and bytes of the JavaScript runtime\<close>

text \<open>
  A JavaScript string is modelled as a \<^typ>\<open>string\<close> whose characters are 8-bit code
  units (HTTP header values reach Node decoded as Latin-1, one character per byte); a
  \<^verbatim>\<open>Buffer\<close> is a list of bytes. A value that may be \<^verbatim>\<open>undefined\<close> or
  \<^verbatim>\<open>null\<close> is an \<^typ>\<open>'a option\<close>.
\<close>

type_synonym byte = "8 word"

definition dq :: string where
  \<comment> \<open>the double-quote character, as a one-character string\<close>
  "dq = [CHR 0x22]"

definition tmpl :: "string option \<Rightarrow> string" where
  \<comment> \<open>interpolation of a possibly undefined string in a template literal\<close>
  "tmpl v = (case v of None \<Rightarrow> ''undefined'' | Some s \<Rightarrow> s)"

fun digits :: "nat \<Rightarrow> string" where
  "digits n =
     (if n < 10 then [''0123456789'' ! n]
      else digits (n div 10) @ [''0123456789'' ! (n mod 10)])"

definition number_toString :: "int \<Rightarrow> string" where
  \<comment> \<open>\<^verbatim>\<open>Number.prototype.toString\<close> on an integer: the decimal digits. This is what
      JavaScript prints for the integers up to 2^53 in absolute value, so for every id the
      route hands on (the lookup has accepted it as a 32-bit key); larger numbers are
      printed rounded, and from 10^21 on in exponent form.\<close>
  "number_toString i = (if i < 0 then ''-'' @ digits (nat (- i)) else digits (nat i))"

fun str_includes :: "string \<Rightarrow> string \<Rightarrow> bool" where
  \<comment> \<open>\<^verbatim>\<open>String.prototype.includes\<close>: the second string occurs in the first\<close>
  "str_includes [] sub = (sub = [])"
| "str_includes (c # cs) sub = (take (length sub) (c # cs) = sub \<or> str_includes cs sub)"

definition is_space :: "char \<Rightarrow> bool" where
  \<comment> \<open>the white space and line terminators of JavaScript that fit in 8 bits\<close>
  "is_space c = ((of_char c :: nat) \<in> {9, 10, 11, 12, 13, 32, 160})"

definition trim :: "string \<Rightarrow> string" where
  "trim s = rev (dropWhile is_space (rev (dropWhile is_space s)))"

definition or_default :: "string option \<Rightarrow> string \<Rightarrow> string" where
  \<comment> \<open>\<^verbatim>\<open>a || d\<close> on strings: undefined, null and the empty string are falsy\<close>
  "or_default a d = (case a of None \<Rightarrow> d | Some s \<Rightarrow> if s = [] then d else s)"

datatype js_value = JNull | JBool bool | JNumber int | JString string | JObject string

text \<open>
  A value as a response body holds it after axios has parsed it: JSON when the text is JSON,
  the text itself otherwise. An object, an array and a number that is not an integer are
  kept by their text (\<open>JObject\<close>); they are always truthy.
\<close>

fun truthy :: "js_value \<Rightarrow> bool" where
  "truthy JNull = False"
| "truthy (JBool b) = b"
| "truthy (JNumber i) = (i \<noteq> 0)"
| "truthy (JString s) = (s \<noteq> [])"
| "truthy (JObject s) = True"

definition hex_digit :: "nat \<Rightarrow> char" where
  "hex_digit n = ''0123456789abcdef'' ! n"

definition toString_hex :: "byte list \<Rightarrow> string" where
  \<comment> \<open>\<^verbatim>\<open>Buffer.toString('hex')\<close>\<close>
  "toString_hex bs = concat (map (\<lambda>b. [hex_digit (unat b div 16), hex_digit (unat b mod 16)]) bs)"

definition b64_char :: "nat \<Rightarrow> char" where
  "b64_char n = ''ABCDEFGHIJKLMNOPQRSTUVWXYZabcdefghijklmnopqrstuvwxyz0123456789+/'' ! n"

fun toString_base64 :: "byte list \<Rightarrow> string" where
  \<comment> \<open>\<^verbatim>\<open>Buffer.toString('base64')\<close>: three bytes give four characters, padded with =\<close>
  "toString_base64 [] = []"
| "toString_base64 [a] =
     (let n = unat a in [b64_char (n div 4), b64_char ((n mod 4) * 16), CHR ''='', CHR ''=''])"
| "toString_base64 [a, b] =
     (let n = unat a * 256 + unat b
      in [b64_char (n div 1024), b64_char ((n div 16) mod 64), b64_char ((n mod 16) * 4), CHR ''=''])"
| "toString_base64 (a # b # c # rest) =
     (let n = unat a * 65536 + unat b * 256 + unat c
      in [b64_char (n div 262144), b64_char ((n div 4096) mod 64),
          b64_char ((n div 64) mod 64), b64_char (n mod 64)] @ toString_base64 rest)"


section \<open>The device client (hikvisionService.js)\<close>

subsection \<open>parseDigestHeader\<close>

text \<open>
  The source scans the header with the global regular expression
  \<^verbatim>\<open>/(\w+)=["']?([^"',]+)["']?/g\<close>. The three character classes:
\<close>

definition is_word :: "char \<Rightarrow> bool" where
  \<comment> \<open>\<^verbatim>\<open>\w\<close>: letters, digits and the underscore\<close>
  "is_word c = (let n = (of_char c :: nat) in
     (48 \<le> n \<and> n \<le> 57) \<or> (65 \<le> n \<and> n \<le> 90) \<or> n = 95 \<or> (97 \<le> n \<and> n \<le> 122))"

definition is_quote :: "char \<Rightarrow> bool" where
  \<comment> \<open>\<^verbatim>\<open>["']\<close>\<close>
  "is_quote c = (c = CHR 0x22 \<or> c = CHR 0x27)"

definition is_val :: "char \<Rightarrow> bool" where
  \<comment> \<open>\<^verbatim>\<open>[^"',]\<close>\<close>
  "is_val c = (c \<noteq> CHR 0x22 \<and> c \<noteq> CHR 0x27 \<and> c \<noteq> CHR '','')"

text \<open>
  One attempt of the expression at the head of a string, giving the two capture groups and
  the length of the match. Both \<^verbatim>\<open>\w+\<close> and \<^verbatim>\<open>[^"',]+\<close> are greedy and a shorter
  run never helps (the next character of a shortened word run is a word character, not
  \<^verbatim>\<open>=\<close>, and nothing after the value can fail), so each takes its longest run. The
  optional opening quote is taken when present; giving it back cannot help either, since
  the value would then have to start at the quote.
\<close>

definition match_here :: "string \<Rightarrow> (string \<times> string \<times> nat) option" where
  "match_here s =
     (let key = takeWhile is_word s; r1 = dropWhile is_word s in
      if key = [] then None
      else case r1 of
          [] \<Rightarrow> None
        | e # r2 \<Rightarrow>
            if e \<noteq> CHR ''='' then None
            else let (oq, r3) = (case r2 of [] \<Rightarrow> (0, r2)
                                 | q # r \<Rightarrow> if is_quote q then (1, r) else (0, r2));
                     v = takeWhile is_val r3;
                     r4 = dropWhile is_val r3
                 in if v = [] then None
                    else let cq = (case r4 of [] \<Rightarrow> 0 | q # _ \<Rightarrow> if is_quote q then 1 else 0)
                         in Some (key, v, length key + 1 + oq + length v + cq))"

text \<open>
  The loop \<^verbatim>\<open>while ((match = regex.exec(authHeader)) !== null)\<close>: the search resumes at
  \<^verbatim>\<open>lastIndex\<close>, the end of the previous match. The first argument counts the characters
  still covered by the previous match.
\<close>

fun exec_from :: "nat \<Rightarrow> string \<Rightarrow> (string \<times> string) list" where
  "exec_from _ [] = []"
| "exec_from (Suc k) (c # cs) = exec_from k cs"
| "exec_from 0 (c # cs) =
     (case match_here (c # cs) of
        None \<Rightarrow> exec_from 0 cs
      | Some (key, v, len) \<Rightarrow> (key, v) # exec_from (len - 1) cs)"

definition assign :: "(string \<rightharpoonup> string) \<Rightarrow> string \<times> string \<Rightarrow> (string \<rightharpoonup> string)" where
  \<comment> \<open>\<^verbatim>\<open>digest[match[1]] = match[2]\<close> on a plain object: assigning a string to
      \<^verbatim>\<open>__proto__\<close> leaves the object as it is\<close>
  "assign digest kv = (if fst kv = ''__proto__'' then digest else digest(fst kv \<mapsto> snd kv))"

definition parseDigestHeader :: "string \<Rightarrow> (string \<rightharpoonup> string)" where
  "parseDigestHeader authHeader = foldl assign Map.empty (exec_from 0 authHeader)"

subsection \<open>Requests, responses and the service object\<close>

record face_data =
  faceLibType :: string
  FDID :: string
  FPID :: string
  name :: string
  bornTime :: string
  sex :: string
  faceURL :: string

record http_request =
  req_method :: string
  url :: string
  data :: "face_data option"
  headers :: "(string \<times> string) list"

record http_response =
  status :: nat
  resp_headers :: "string \<rightharpoonup> string"
  resp_data :: js_value

text \<open>
  The fields of the service object. Its axios instance \<^verbatim>\<open>this.client\<close> is created with a
  timeout and an agent only, so redirects are followed as the library does by default:
  \<open>maxRedirects\<close> is the library's default bound, and \<open>redirected req resp\<close> is the request
  the library builds to follow the Location of the response \<open>resp\<close> to the request \<open>req\<close>
  (it rewrites the URL and, by its own rules, the method, the body and the headers).
\<close>

record config =
  deviceIP :: "string option"
  username :: "string option"
  password :: "string option"
  useHttps :: bool
  maxRedirects :: nat
  redirected :: "http_request \<Rightarrow> http_response \<Rightarrow> http_request"

definition baseURL :: "config \<Rightarrow> string" where
  "baseURL cfg = (if useHttps cfg then ''https'' else ''http'') @ ''://'' @ tmpl (deviceIP cfg)"

subsection \<open>generateDigestAuth\<close>

text \<open>
  The hash \<^verbatim>\<open>crypto.createHash('md5')\<close> and the bytes that \<^verbatim>\<open>crypto.randomBytes(16)\<close>
  returns for this call come from the runtime: they are parameters.
\<close>

definition generateDigestAuth ::
  "(string \<Rightarrow> string) \<Rightarrow> byte list \<Rightarrow> config \<Rightarrow> string \<Rightarrow> string \<Rightarrow> (string \<rightharpoonup> string) \<Rightarrow> string" where
  "generateDigestAuth md5 randomBytes cfg method uri digestParams =
     (let nc = ''00000001'';
          cnonce = toString_hex randomBytes;
          ha1 = md5 (tmpl (username cfg) @ '':'' @ tmpl (digestParams ''realm'') @ '':''
                       @ tmpl (password cfg));
          ha2 = md5 (method @ '':'' @ uri);
          response = md5 (ha1 @ '':'' @ tmpl (digestParams ''nonce'') @ '':'' @ nc @ '':''
                            @ cnonce @ '':'' @ tmpl (digestParams ''qop'') @ '':'' @ ha2)
      in ''Digest username='' @ dq @ tmpl (username cfg) @ dq
           @ '', realm='' @ dq @ tmpl (digestParams ''realm'') @ dq
           @ '', nonce='' @ dq @ tmpl (digestParams ''nonce'') @ dq
           @ '', uri='' @ dq @ uri @ dq
           @ '', qop='' @ tmpl (digestParams ''qop'')
           @ '', nc='' @ nc
           @ '', cnonce='' @ dq @ cnonce @ dq
           @ '', response='' @ dq @ response @ dq)"

subsection \<open>The HTTP conversation\<close>

text \<open>What the network gives back for one request: a response, or a failure with its code and message.\<close>

datatype reply = Response http_response | NetworkError string string

record js_error =
  err_message :: string
  err_code :: "string option"
  err_response :: "http_response option"

definition new_Error :: "string \<Rightarrow> js_error" where
  "new_Error msg = \<lparr>err_message = msg, err_code = None, err_response = None\<rparr>"

text \<open>
  The device (with whatever answers at the addresses it redirects to) is any state machine
  that answers HTTP requests. The client side keeps two lists: \<open>sent\<close>, the requests the
  program has handed to \<^verbatim>\<open>client.request\<close>, and \<open>wire\<close>, the HTTP requests that have gone
  out, which are those and the ones made to follow redirects.
\<close>

type_synonym 'd device = "'d \<Rightarrow> http_request \<Rightarrow> reply \<times> 'd"

record 'd net =
  dev_state :: 'd
  sent :: "http_request list"
  wire :: "http_request list"

definition is_redirect :: "http_response \<Rightarrow> bool" where
  \<comment> \<open>a response the library follows: a 3xx status with a Location header\<close>
  "is_redirect r =
     (300 \<le> status r \<and> status r < 400 \<and>
      (case resp_headers r ''location'' of None \<Rightarrow> False | Some l \<Rightarrow> l \<noteq> []))"

text \<open>
  One request with the redirects followed; the first argument after the device and the
  rewriting is the number of redirects that may still be followed. The result is the last
  answer, the device's state and the HTTP requests made. A redirect beyond the bound is the
  failure "Maximum number of redirects exceeded".
\<close>

fun follow ::
  "'d device \<Rightarrow> (http_request \<Rightarrow> http_response \<Rightarrow> http_request) \<Rightarrow> nat \<Rightarrow> http_request \<Rightarrow> 'd
     \<Rightarrow> reply \<times> 'd \<times> http_request list" where
  "follow dev rewrite 0 req d =
     (case dev d req of
        (NetworkError c m, d') \<Rightarrow> (NetworkError c m, d', [req])
      | (Response r, d') \<Rightarrow>
          if is_redirect r
          then (NetworkError ''ERR_FR_TOO_MANY_REDIRECTS'' ''Maximum number of redirects exceeded'',
                d', [req])
          else (Response r, d', [req]))"
| "follow dev rewrite (Suc k) req d =
     (case dev d req of
        (NetworkError c m, d') \<Rightarrow> (NetworkError c m, d', [req])
      | (Response r, d') \<Rightarrow>
          if is_redirect r
          then (case follow dev rewrite k (rewrite req r) d' of
                  (rep, d'', hops) \<Rightarrow> (rep, d'', req # hops))
          else (Response r, d', [req]))"

text \<open>
  \<^verbatim>\<open>client.request\<close> of axios: redirects are followed unless the bound is 0 (then every
  response is final); the promise is rejected on a failure and on a final status that
  \<^verbatim>\<open>validateStatus\<close> refuses, and the error of a refused status carries the response (its
  code is the one of axios 1.x).
\<close>

definition client_request ::
  "config \<Rightarrow> 'd device \<Rightarrow> (nat \<Rightarrow> bool) \<Rightarrow> http_request \<Rightarrow> 'd net
     \<Rightarrow> (js_error + http_response) \<times> 'd net" where
  "client_request cfg dev validateStatus req n =
     (let (rep, d', hops) =
            (if maxRedirects cfg = 0
             then (case dev (dev_state n) req of (rep, d') \<Rightarrow> (rep, d', [req]))
             else follow dev (redirected cfg) (maxRedirects cfg) req (dev_state n));
          n' = \<lparr>dev_state = d', sent = sent n @ [req], wire = wire n @ hops\<rparr>
      in case rep of
           NetworkError c m \<Rightarrow> (Inl \<lparr>err_message = m, err_code = Some c, err_response = None\<rparr>, n')
         | Response r \<Rightarrow>
             if validateStatus (status r) then (Inr r, n')
             else (Inl \<lparr>err_message = ''Request failed with status code '' @ digits (status r),
                        err_code = (if 400 \<le> status r \<and> status r < 500 then Some ''ERR_BAD_REQUEST''
                                else if 500 \<le> status r \<and> status r < 600 then Some ''ERR_BAD_RESPONSE''
                                else None),
                        err_response = Some r\<rparr>, n'))"

definition default_validateStatus :: "nat \<Rightarrow> bool" where
  "default_validateStatus s = (200 \<le> s \<and> s < 300)"

definition rethrow :: "config \<Rightarrow> js_error \<Rightarrow> js_error" where
  \<comment> \<open>the catch clause of makeAuthenticatedRequest\<close>
  "rethrow cfg error =
     (if err_code error = Some ''ECONNREFUSED''
      then new_Error (''Cannot connect to Hikvision device at '' @ tmpl (deviceIP cfg))
      else if err_code error = Some ''ETIMEDOUT''
      then new_Error (''Connection timeout to Hikvision device at '' @ tmpl (deviceIP cfg))
      else error)"

definition makeAuthenticatedRequest ::
  "(string \<Rightarrow> string) \<Rightarrow> byte list \<Rightarrow> config \<Rightarrow> 'd device \<Rightarrow> string \<Rightarrow> string
     \<Rightarrow> face_data option \<Rightarrow> (string \<times> string) list \<Rightarrow> 'd net \<Rightarrow> (js_error + http_response) \<times> 'd net" where
  "makeAuthenticatedRequest md5 randomBytes cfg dev meth endpoint body hdrs n =
     (let url = baseURL cfg @ endpoint in
      case client_request cfg dev (\<lambda>s. s = 401 \<or> (200 \<le> s \<and> s < 300))
             \<lparr>req_method = meth, url = url, data = body, headers = hdrs\<rparr> n of
        (Inl error, n1) \<Rightarrow> (Inl (rethrow cfg error), n1)
      | (Inr initialResponse, n1) \<Rightarrow>
          if status initialResponse = 401 then
            (case resp_headers initialResponse ''www-authenticate'' of
               None \<Rightarrow>
                 (Inl (rethrow cfg (new_Error ''Device does not support Digest authentication'')), n1)
             | Some authHeader \<Rightarrow>
                 if authHeader = [] \<or> \<not> str_includes authHeader ''Digest''
                 then (Inl (rethrow cfg (new_Error ''Device does not support Digest authentication'')), n1)
                 else
                   let digestParams = parseDigestHeader authHeader;
                       authHeaderValue = generateDigestAuth md5 randomBytes cfg meth endpoint digestParams
                   in case client_request cfg dev default_validateStatus
                          \<lparr>req_method = meth, url = url, data = body,
                           headers = AList.update ''Authorization'' authHeaderValue hdrs\<rparr> n1 of
                        (Inl error, n2) \<Rightarrow> (Inl (rethrow cfg error), n2)
                      | (Inr authenticatedResponse, n2) \<Rightarrow> (Inr authenticatedResponse, n2))
          else (Inr initialResponse, n1))"

subsection \<open>The public operations\<close>

text \<open>
  One record for the result objects of the five operations; a field that an operation
  does not set, or sets to \<^verbatim>\<open>null\<close>, is \<^const>\<open>None\<close>. Each operation is a
  \<^verbatim>\<open>try\<close> whose \<^verbatim>\<open>catch\<close> returns a result, so an operation that throws would be \<^const>\<open>Inl\<close>.
\<close>

record device_result =
  success :: bool
  deviceInfo :: "js_value option"
  res_data :: "js_value option"
  res_status :: "nat option"
  res_message :: "string option"
  res_error :: "string option"
  details :: "js_value option"

definition error_details :: "js_error \<Rightarrow> js_value option" where
  \<comment> \<open>\<^verbatim>\<open>error.response?.data || null\<close>\<close>
  "error_details error =
     (case err_response error of
        None \<Rightarrow> None
      | Some r \<Rightarrow> if truthy (resp_data r) then Some (resp_data r) else None)"

definition error_status :: "js_error \<Rightarrow> nat option" where
  \<comment> \<open>\<^verbatim>\<open>error.response?.status || null\<close>\<close>
  "error_status error =
     (case err_response error of None \<Rightarrow> None | Some r \<Rightarrow> if status r = 0 then None else Some (status r))"



definition enrollFace ::
  "(string \<Rightarrow> string) \<Rightarrow> byte list \<Rightarrow> string \<Rightarrow> config \<Rightarrow> 'd device \<Rightarrow> int \<Rightarrow> byte list \<Rightarrow> string
     \<Rightarrow> 'd net \<Rightarrow> (js_error + device_result) \<times> 'd net" where
  \<comment> \<open>\<open>now\<close> is the value of \<^verbatim>\<open>new Date().toISOString()\<close> at the call\<close>
  "enrollFace md5 randomBytes now cfg dev personId imageBuffer personName n =
     (let imageBase64 = toString_base64 imageBuffer;
          faceData = \<lparr>faceLibType = ''blackFD'',
                      FDID = ''1'',
                      FPID = number_toString personId,
                      name = (if personName \<noteq> [] then personName
                              else ''Person_'' @ number_toString personId),
                      bornTime = takeWhile (\<lambda>c. c \<noteq> CHR ''T'') now,
                      sex = ''unknown'',
                      faceURL = ''data:image/jpeg;base64,'' @ imageBase64\<rparr>
      in case makeAuthenticatedRequest md5 randomBytes cfg dev ''POST''
                ''/ISAPI/Intelligent/FDLib/FDSet'' (Some faceData)
                [(''Content-Type'', ''application/json''), (''Accept'', ''application/json'')] n of
           (Inr response, n') \<Rightarrow>
             (Inr \<lparr>success = True, deviceInfo = None, res_data = Some (resp_data response),
                   res_status = Some (status response),
                   res_message = Some ''Face enrolled successfully to Hikvision device'',
                   res_error = None, details = None\<rparr>, n')
         | (Inl error, n') \<Rightarrow>
             (Inr \<lparr>success = False, deviceInfo = None, res_data = None,
                   res_status = error_status error, res_message = None,
                   res_error = Some (err_message error), details = error_details error\<rparr>, n'))"




section \<open>The enrollment endpoint (server)\<close>

subsection \<open>The store\<close>

text \<open>
  The three tables of the schema, with the columns the endpoint reads or writes (the
  timestamps are left out). The primary keys are \<open>facialID\<close> on \<open>face\<close> and the pair of
  columns on \<open>perface\<close>.
\<close>

record per =
  personaID :: int
  nombre :: "string option"
  apellido :: "string option"

record face =
  facialID :: int
  templateData :: "byte list option"
  activo :: bool

record perface =
  pf_personaID :: int
  pf_facialID :: int

record db =
  per_tbl :: "per list"
  face_tbl :: "face list"
  perface_tbl :: "perface list"

text \<open>
  Any query may be rejected by the store; which ones are is decided outside the program.
  A transaction that is rejected leaves the tables as they were.
\<close>

record faults =
  find_fails :: bool
  tx_fails :: bool
  count_fails :: bool

definition int32 :: "int \<Rightarrow> bool" where
  \<comment> \<open>the values of the column type \<open>Int\<close> (INTEGER)\<close>
  "int32 i = (- 2147483648 \<le> i \<and> i \<le> 2147483647)"

definition per_lookup :: "db \<Rightarrow> int \<Rightarrow> per option" where
  \<comment> \<open>the row of \<open>per\<close> with the key, if there is one\<close>
  "per_lookup d pid = find (\<lambda>p. personaID p = pid) (per_tbl d)"

definition per_findUnique :: "faults \<Rightarrow> db \<Rightarrow> int \<Rightarrow> js_error + per option" where
  \<comment> \<open>\<^verbatim>\<open>prisma.per.findUnique({ where: { personaID } })\<close>: a value that does not fit the
      column is rejected, as a query may be by the store\<close>
  "per_findUnique flt d pid =
     (if \<not> int32 pid then Inl (new_Error ''Value out of range for the type Int'')
      else if find_fails flt then Inl (new_Error ''Query failed'')
      else Inr (per_lookup d pid))"

definition perface_findMany :: "db \<Rightarrow> int \<Rightarrow> perface list" where
  \<comment> \<open>\<^verbatim>\<open>tx.perface.findMany({ where: { personaID } })\<close>\<close>
  "perface_findMany d pid = filter (\<lambda>pf. pf_personaID pf = pid) (perface_tbl d)"

definition face_updateMany :: "db \<Rightarrow> int list \<Rightarrow> db" where
  \<comment> \<open>\<^verbatim>\<open>tx.face.updateMany({ where: { facialID: { in: faceIds } }, data: { activo: false } })\<close>\<close>
  "face_updateMany d faceIds =
     d\<lparr>face_tbl := map (\<lambda>f. if facialID f \<in> set faceIds then f\<lparr>activo := False\<rparr> else f) (face_tbl d)\<rparr>"

definition face_create :: "int \<Rightarrow> db \<Rightarrow> byte list \<Rightarrow> js_error + (face \<times> db)" where
  \<comment> \<open>\<^verbatim>\<open>tx.face.create\<close>; \<open>newId\<close> is the value the SERIAL column draws, and a row with
      that key makes the insert fail\<close>
  "face_create newId d buf =
     (if newId \<in> set (map facialID (face_tbl d))
      then Inl (new_Error ''Unique constraint failed on the fields: (facialID)'')
      else let newFace = \<lparr>facialID = newId, templateData = Some buf, activo = True\<rparr>
           in Inr (newFace, d\<lparr>face_tbl := face_tbl d @ [newFace]\<rparr>))"

definition perface_create :: "db \<Rightarrow> int \<Rightarrow> int \<Rightarrow> js_error + db" where
  \<comment> \<open>\<^verbatim>\<open>tx.perface.create\<close>\<close>
  "perface_create d pid fid =
     (if list_ex (\<lambda>pf. pf_personaID pf = pid \<and> pf_facialID pf = fid) (perface_tbl d)
      then Inl (new_Error ''Unique constraint failed on the fields: (personaID,facialID)'')
      else Inr (d\<lparr>perface_tbl := perface_tbl d @ [\<lparr>pf_personaID = pid, pf_facialID = fid\<rparr>]\<rparr>))"

definition perface_count :: "db \<Rightarrow> int \<Rightarrow> bool \<Rightarrow> nat" where
  \<comment> \<open>\<^verbatim>\<open>prisma.perface.count({ where: { personaID, face: { activo } } })\<close>\<close>
  "perface_count d pid act =
     length (filter (\<lambda>pf. pf_personaID pf = pid
                       \<and> list_ex (\<lambda>f. facialID f = pf_facialID pf \<and> activo f = act) (face_tbl d))
               (perface_tbl d))"

definition enroll_transaction :: "faults \<Rightarrow> int \<Rightarrow> db \<Rightarrow> int \<Rightarrow> byte list \<Rightarrow> js_error + (face \<times> db)" where
  \<comment> \<open>the body of \<^verbatim>\<open>prisma.$transaction\<close>\<close>
  "enroll_transaction flt newId d pid buf =
     (if tx_fails flt then Inl (new_Error ''Transaction failed'')
      else
        let existingFaces = perface_findMany d pid;
            d1 = (if length existingFaces > 0
                  then face_updateMany d (map pf_facialID existingFaces) else d)
        in case face_create newId d1 buf of
             Inl e \<Rightarrow> Inl e
           | Inr (newFace, d2) \<Rightarrow>
               (case perface_create d2 pid (facialID newFace) of
                  Inl e \<Rightarrow> Inl e
                | Inr d3 \<Rightarrow> Inr (newFace, d3)))"

subsection \<open>The route POST /api/enroll/:personaID\<close>

record upload =
  mimetype :: string
  buffer :: "byte list"

definition fileFilter :: "string \<Rightarrow> bool" where
  "fileFilter mt = (mt = ''image/jpeg'' \<or> mt = ''image/png'')"

record hikvision_json =
  hk_success :: bool
  hk_message :: string
  hk_error :: "string option"

record enroll_json =
  ok_success :: bool
  ok_message :: string
  faceId :: int
  deactivatedFaces :: nat
  hikvision :: hikvision_json

datatype json = ErrorJson string | EnrollJson enroll_json

record http_reply =
  reply_status :: nat
  reply_json :: json

definition failed_500 :: http_reply where
  "failed_500 = \<lparr>reply_status = 500, reply_json = ErrorJson ''Failed to enroll face''\<rparr>"

definition display_name :: "per \<Rightarrow> int \<Rightarrow> string" where
  \<comment> \<open>the \<open>personName\<close> handed to the device client\<close>
  "display_name persona pid =
     or_default
       (Some (trim (or_default (nombre persona) [] @ '' '' @ or_default (apellido persona) [])))
       (''Person_'' @ number_toString pid)"

text \<open>
  The handler. \<open>parsedID\<close> is the value of \<^verbatim>\<open>parseInt(req.params.personaID)\<close>: an
  integer, or \<^const>\<open>None\<close> when the parameter gives no number (NaN), which the lookup
  rejects as it does a value out of range. The device client is the parameter \<open>svc\<close> (the
  call \<^verbatim>\<open>hikvisionService.enrollFace\<close>), with whatever state \<open>'n\<close> it works on; the result
  is the HTTP reply, the store and that state.
\<close>

definition enroll_handler ::
  "(int \<Rightarrow> byte list \<Rightarrow> string \<Rightarrow> 'n \<Rightarrow> (js_error + device_result) \<times> 'n)
     \<Rightarrow> faults \<Rightarrow> int \<Rightarrow> db \<Rightarrow> int option \<Rightarrow> upload option \<Rightarrow> 'n \<Rightarrow> http_reply \<times> db \<times> 'n" where
  "enroll_handler svc flt newId d parsedID file n =
     (case file of
        None \<Rightarrow> (\<lparr>reply_status = 400, reply_json = ErrorJson ''No image file provided''\<rparr>, d, n)
      | Some f \<Rightarrow>
          (case parsedID of
             None \<Rightarrow> (failed_500, d, n)
           | Some pid \<Rightarrow>
               (case per_findUnique flt d pid of
                  Inl e \<Rightarrow> (failed_500, d, n)
                | Inr None \<Rightarrow>
                    (\<lparr>reply_status = 404, reply_json = ErrorJson ''Person not found''\<rparr>, d, n)
                | Inr (Some persona) \<Rightarrow>
                    (case enroll_transaction flt newId d pid (buffer f) of
                       Inl e \<Rightarrow> (failed_500, d, n)
                     | Inr (result, d') \<Rightarrow>
                         let personName = display_name persona pid;
                             (called, n') = svc pid (buffer f) personName n;
                             hikvisionResult = (case called of Inr r \<Rightarrow> Some r | Inl e \<Rightarrow> None);
                             hikvisionError =
                               (case called of
                                  Inr r \<Rightarrow> if \<not> success r then res_error r else None
                                | Inl e \<Rightarrow> Some (err_message e))
                         in if count_fails flt then (failed_500, d', n')
                            else
                              let deactivatedCount = perface_count d' pid False
                              in (\<lparr>reply_status = 200,
                                   reply_json = EnrollJson
                                     \<lparr>ok_success = True,
                                      ok_message = ''Face enrolled successfully to database'',
                                      faceId = facialID result,
                                      deactivatedFaces = deactivatedCount,
                                      hikvision =
                                        \<lparr>hk_success = (case hikvisionResult of None \<Rightarrow> False
                                                        | Some r \<Rightarrow> success r),
                                         hk_message =
                                           or_default (case hikvisionResult of None \<Rightarrow> None
                                                       | Some r \<Rightarrow> res_message r)
                                             (or_default hikvisionError ''Device enrollment failed''),
                                         hk_error = hikvisionError\<rparr>\<rparr>\<rparr>, d', n')))))"

text \<open>
  The route: the upload middleware runs \<open>fileFilter\<close> first, and a refused file ends in the
  error middleware (the size limit of the middleware is not part of this model).
\<close>

definition enroll_route ::
  "(int \<Rightarrow> byte list \<Rightarrow> string \<Rightarrow> 'n \<Rightarrow> (js_error + device_result) \<times> 'n)
     \<Rightarrow> faults \<Rightarrow> int \<Rightarrow> db \<Rightarrow> int option \<Rightarrow> upload option \<Rightarrow> 'n \<Rightarrow> http_reply \<times> db \<times> 'n" where
  "enroll_route svc flt newId d parsedID file n =
     (case file of
        Some f \<Rightarrow>
          if fileFilter (mimetype f) then enroll_handler svc flt newId d parsedID file n
          else (\<lparr>reply_status = 500, reply_json = ErrorJson ''Internal server error''\<rparr>, d, n)
      | None \<Rightarrow> enroll_handler svc flt newId d parsedID file n)"


section \<open>The specification's notions\<close>

subsection \<open>The digest response, as the specification words it\<close>

record digest_inputs =
  di_username :: string
  di_realm :: string
  di_password :: string
  di_method :: string
  di_uri :: string
  di_nonce :: string
  di_nc :: string
  di_cnonce :: string
  di_qop :: string

definition digest_HA1 :: "(string \<Rightarrow> string) \<Rightarrow> digest_inputs \<Rightarrow> string" where
  "digest_HA1 md5 i = md5 (di_username i @ '':'' @ di_realm i @ '':'' @ di_password i)"

definition digest_HA2 :: "(string \<Rightarrow> string) \<Rightarrow> digest_inputs \<Rightarrow> string" where
  "digest_HA2 md5 i = md5 (di_method i @ '':'' @ di_uri i)"

definition digest_response :: "(string \<Rightarrow> string) \<Rightarrow> digest_inputs \<Rightarrow> string" where
  "digest_response md5 i =
     md5 (digest_HA1 md5 i @ '':'' @ di_nonce i @ '':'' @ di_nc i @ '':'' @ di_cnonce i
            @ '':'' @ di_qop i @ '':'' @ digest_HA2 md5 i)"

subsection \<open>Challenge headers in the attribute-value grammar\<close>

text \<open>
  A challenge is the word Digest, a space, and directives \<open>name=value\<close> or
  \<open>name="value"\<close> separated by commas; \<open>d_lead\<close> is the number of spaces written
  before a directive.
\<close>

record directive =
  d_lead :: nat
  d_name :: string
  d_value :: string
  d_quoted :: bool

definition render_directive :: "directive \<Rightarrow> string" where
  "render_directive d =
     d_name d @ ''='' @ (if d_quoted d then dq @ d_value d @ dq else d_value d)"

fun render_directives :: "directive list \<Rightarrow> string" where
  "render_directives [] = []"
| "render_directives [d] = replicate (d_lead d) CHR '' '' @ render_directive d"
| "render_directives (d # ds) =
     replicate (d_lead d) CHR '' '' @ render_directive d @ '','' @ render_directives ds"

definition challenge :: "directive list \<Rightarrow> string" where
  "challenge ds = ''Digest '' @ render_directives ds"

definition directive_alist :: "directive list \<Rightarrow> (string \<times> string) list" where
  "directive_alist ds = map (\<lambda>d. (d_name d, d_value d)) ds"

definition is_tchar :: "char \<Rightarrow> bool" where
  \<comment> \<open>the characters of an HTTP token: letters, digits and ! # $ % & ' * + - . ^ _ ` | ~\<close>
  "is_tchar c = (is_word c \<or>
     (of_char c :: nat) \<in> {33, 35, 36, 37, 38, 39, 42, 43, 45, 46, 94, 96, 124, 126})"

definition wellformed_directive :: "directive \<Rightarrow> bool" where
  \<comment> \<open>a token name; a quoted string without quote or backslash inside, or a token\<close>
  "wellformed_directive d =
     (d_name d \<noteq> [] \<and> list_all is_tchar (d_name d) \<and>
      (if d_quoted d then list_all (\<lambda>c. c \<noteq> CHR 0x22 \<and> c \<noteq> CHR 0x5C) (d_value d)
       else d_value d \<noteq> [] \<and> list_all is_tchar (d_value d)))"

definition plain_directive :: "directive \<Rightarrow> bool" where
  \<comment> \<open>a name of word characters and a non-empty value without quote, apostrophe or comma\<close>
  "plain_directive d =
     (d_name d \<noteq> [] \<and> list_all is_word (d_name d) \<and>
      d_value d \<noteq> [] \<and> list_all is_val (d_value d))"


subsection \<open>The result envelope\<close>



section \<open>Example configurations, devices and stores\<close>

definition hash_ex :: "string \<Rightarrow> string" where
  \<comment> \<open>a stand-in for the hash in the examples\<close>
  "hash_ex s = ''md5<'' @ s @ ''>''"

definition relocate_ex :: "http_request \<Rightarrow> http_response \<Rightarrow> http_request" where
  \<comment> \<open>following an absolute Location with the request otherwise unchanged, as for a GET\<close>
  "relocate_ex req resp = req\<lparr>url := tmpl (resp_headers resp ''location'')\<rparr>"

definition cfg_ex :: config where
  "cfg_ex = \<lparr>deviceIP = Some ''192.168.1.64'', username = Some ''admin'',
             password = Some ''12345'', useHttps = False,
             maxRedirects = 5, redirected = relocate_ex\<rparr>"

definition random_ex :: "byte list" where
  "random_ex = [0x00, 0x11, 0x22, 0x33, 0x44, 0x55, 0x66, 0x77,
                0x88, 0x99, 0xAA, 0xBB, 0xCC, 0xDD, 0xEE, 0xFF]"

definition challenge_ex :: string where
  "challenge_ex = ''Digest qop='' @ dq @ ''auth'' @ dq @ '', realm='' @ dq @ ''DS-2CD2042'' @ dq
                    @ '', nonce='' @ dq @ ''4e6a51c2'' @ dq"

definition unreachable :: "unit device" where
  \<comment> \<open>nothing listens at the address\<close>
  "unreachable = (\<lambda>_ _. (NetworkError ''ECONNREFUSED'' ''connect ECONNREFUSED 192.168.1.64:80'', ()))"



definition digest_device :: "unit device" where
  \<comment> \<open>a device that accepts any request carrying an Authorization header\<close>
  "digest_device = (\<lambda>_ req.
       if map_of (headers req) ''Authorization'' = None
       then (Response \<lparr>status = 401, resp_headers = [''www-authenticate'' \<mapsto> challenge_ex],
                       resp_data = JString []\<rparr>, ())
       else (Response \<lparr>status = 200, resp_headers = Map.empty, resp_data = JString ''ok''\<rparr>, ()))"




definition net_ex :: "unit net" where
  "net_ex = \<lparr>dev_state = (), sent = [], wire = []\<rparr>"

definition no_faults :: faults where
  "no_faults = \<lparr>find_fails = False, tx_fails = False, count_fails = False\<rparr>"

definition count_rejected :: faults where
  \<comment> \<open>the store rejects the count query that follows the mirror step\<close>
  "count_rejected = \<lparr>find_fails = False, tx_fails = False, count_fails = True\<rparr>"

definition store_two_active :: db where
  \<comment> \<open>subject 7 with two active faces\<close>
  "store_two_active =
     \<lparr>per_tbl = [\<lparr>personaID = 7, nombre = Some ''Jose'', apellido = Some ''Gonzalez''\<rparr>],
      face_tbl = [\<lparr>facialID = 1, templateData = None, activo = True\<rparr>,
                  \<lparr>facialID = 2, templateData = None, activo = True\<rparr>],
      perface_tbl = [\<lparr>pf_personaID = 7, pf_facialID = 1\<rparr>, \<lparr>pf_personaID = 7, pf_facialID = 2\<rparr>]\<rparr>"

definition store_one_active :: db where
  \<comment> \<open>subject 7 after two enrollments: an inactive face and an active one\<close>
  "store_one_active =
     \<lparr>per_tbl = [\<lparr>personaID = 7, nombre = Some ''Jose'', apellido = Some ''Gonzalez''\<rparr>],
      face_tbl = [\<lparr>facialID = 1, templateData = None, activo = False\<rparr>,
                  \<lparr>facialID = 2, templateData = None, activo = True\<rparr>],
      perface_tbl = [\<lparr>pf_personaID = 7, pf_facialID = 1\<rparr>, \<lparr>pf_personaID = 7, pf_facialID = 2\<rparr>]\<rparr>"

definition jpeg_ex :: upload where
  "jpeg_ex = \<lparr>mimetype = ''image/jpeg'', buffer = [0xFF, 0xD8, 0xFF, 0xE0, 0x00]\<rparr>"

definition png_ex :: upload where
  "png_ex = \<lparr>mimetype = ''image/png'', buffer = [0x89, 0x50, 0x4E, 0x47]\<rparr>"

definition now_ex :: string where
  "now_ex = ''2024-05-06T10:11:12.000Z''"


section \<open>Properties of the device client\<close>

declare digits.simps [simp del]

subsection \<open>The scan of the regular expression\<close>

lemma exec_from_drop: "exec_from k s = exec_from 0 (drop k s)"
  by (induction k s rule: exec_from.induct) simp_all

lemma exec_from_match:
  assumes "match_here s = Some (key, v, len)"
  shows "exec_from 0 s = (key, v) # exec_from 0 (drop len s)"
proof (cases s)
  case Nil
  with assms show ?thesis by (simp add: match_here_def)
next
  case (Cons c cs)
  from assms have "0 < len"
    by (auto simp: match_here_def Let_def split: if_splits list.splits prod.splits)
  then have "drop (len - 1) cs = drop len (c # cs)"
    by (cases len) simp_all
  moreover have "exec_from (len - 1) cs = exec_from 0 (drop (len - 1) cs)"
    by (rule exec_from_drop)
  ultimately show ?thesis
    using assms Cons by simp
qed

lemma run_then_stop:
  assumes "list_all P xs" and "ys = [] \<or> \<not> P (hd ys)"
  shows "takeWhile P (xs @ ys) = xs" and "dropWhile P (xs @ ys) = ys"
proof -
  have stop: "takeWhile P ys = []" "dropWhile P ys = ys"
    using assms(2) by (cases ys; simp)+
  show "takeWhile P (xs @ ys) = xs" and "dropWhile P (xs @ ys) = ys"
    using assms(1) stop by (induction xs) simp_all
qed

lemma match_here_directive:
  assumes "plain_directive d" and "rest = [] \<or> hd rest = CHR '',''"
  shows "match_here (render_directive d @ rest)
           = Some (d_name d, d_value d, length (render_directive d))"
proof -
  let ?n = "d_name d" and ?v = "d_value d"
  from assms(1) have n: "?n \<noteq> []" "list_all is_word ?n" and v: "?v \<noteq> []" "list_all is_val ?v"
    by (simp_all add: plain_directive_def)
  have stop: "rest = [] \<or> \<not> is_val (hd rest)"
    using assms(2) by (auto simp: is_val_def)
  show ?thesis
  proof (cases "d_quoted d")
    case True
    let ?tail = "CHR 0x22 # ?v @ CHR 0x22 # rest"
    have r: "render_directive d @ rest = ?n @ (CHR ''='' # ?tail)"
      using True by (simp add: render_directive_def dq_def)
    have k: "takeWhile is_word (?n @ (CHR ''='' # ?tail)) = ?n"
            "dropWhile is_word (?n @ (CHR ''='' # ?tail)) = CHR ''='' # ?tail"
      using n(2) by (simp_all add: run_then_stop is_word_def)
    have w: "takeWhile is_val (?v @ (CHR 0x22 # rest)) = ?v"
            "dropWhile is_val (?v @ (CHR 0x22 # rest)) = CHR 0x22 # rest"
      using v(2) by (simp_all add: run_then_stop is_val_def)
    show ?thesis
      unfolding r match_here_def using n(1) v(1) True
      by (simp add: k w is_quote_def render_directive_def dq_def Let_def)
  next
    case False
    have r: "render_directive d @ rest = ?n @ (CHR ''='' # ?v @ rest)"
      using False by (simp add: render_directive_def)
    have k: "takeWhile is_word (?n @ (CHR ''='' # ?v @ rest)) = ?n"
            "dropWhile is_word (?n @ (CHR ''='' # ?v @ rest)) = CHR ''='' # ?v @ rest"
      using n(2) by (simp_all add: run_then_stop is_word_def)
    have w: "takeWhile is_val (?v @ rest) = ?v" "dropWhile is_val (?v @ rest) = rest"
      using v(2) stop by (simp_all add: run_then_stop)
    obtain a vs where vs: "?v = a # vs" using v(1) by (cases ?v) auto
    with v(2) have a: "\<not> is_quote a" by (simp add: is_val_def is_quote_def)
    have cq: "(case rest of [] \<Rightarrow> 0 | q # _ \<Rightarrow> if is_quote q then 1 else (0::nat)) = 0"
      using assms(2) by (cases rest) (auto simp: is_quote_def)
    have r2: "(case ?v @ rest of [] \<Rightarrow> (0::nat, ?v @ rest)
               | q # r \<Rightarrow> if is_quote q then (1, r) else (0, ?v @ rest)) = (0, ?v @ rest)"
      using vs a by simp
    show ?thesis
      unfolding r match_here_def using n(1) v(1) False
      by (simp add: k w r2 cq render_directive_def Let_def)
  qed
qed

lemma exec_from_spaces: "exec_from 0 (replicate k CHR '' '' @ s) = exec_from 0 s"
  by (induction k) (simp_all add: match_here_def is_word_def)

lemma exec_from_comma: "exec_from 0 ('','' @ s) = exec_from 0 s"
  by (simp add: match_here_def is_word_def)

lemma exec_from_Digest: "exec_from 0 (''Digest '' @ s) = exec_from 0 s"
  by (simp add: match_here_def is_word_def)

lemma exec_from_directives:
  assumes "list_all plain_directive ds"
  shows "exec_from 0 (render_directives ds) = directive_alist ds"
  using assms
proof (induction ds rule: render_directives.induct)
  case 1
  show ?case by (simp add: directive_alist_def)
next
  case (2 d)
  then have "match_here (render_directive d @ [])
               = Some (d_name d, d_value d, length (render_directive d))"
    by (intro match_here_directive) simp_all
  then show ?case
    by (simp add: exec_from_spaces exec_from_match directive_alist_def)
next
  case (3 d e ds)
  let ?rest = "'','' @ render_directives (e # ds)"
  from "3.prems" have "match_here (render_directive d @ ?rest)
               = Some (d_name d, d_value d, length (render_directive d))"
    by (intro match_here_directive) simp_all
  then have "exec_from 0 (render_directive d @ ?rest)
               = (d_name d, d_value d) # exec_from 0 ?rest"
    by (simp add: exec_from_match)
  also have "exec_from 0 ?rest = exec_from 0 (render_directives (e # ds))"
    by (rule exec_from_comma)
  finally have "exec_from 0 (render_directives (d # e # ds))
                  = (d_name d, d_value d) # exec_from 0 (render_directives (e # ds))"
    unfolding render_directives.simps by (simp only: exec_from_spaces)
  then show ?case
    using "3.IH" "3.prems" by (simp add: directive_alist_def)
qed

lemma foldl_assign:
  assumes "k \<noteq> ''__proto__''"
  shows "foldl assign m kvs k = (case map_of (rev kvs) k of None \<Rightarrow> m k | Some v \<Rightarrow> Some v)"
  using assms by (induction kvs arbitrary: m) (auto simp: assign_def map_add_def split: option.splits)

text \<open>
  Claim C5, as the code has it: for every challenge whose directives, separated by a comma
  and any number of spaces, have a name of word characters and a non-empty value without
  double quote, apostrophe or comma (quoted or not), the parser gives realm, nonce and qop
  exactly the value of their last occurrence.
\<close>

theorem parseDigestHeader_plain_challenge:
  assumes "list_all plain_directive ds" and "k \<in> {''realm'', ''nonce'', ''qop''}"
  shows "parseDigestHeader (challenge ds) k = map_of (rev (directive_alist ds)) k"
proof -
  from assms(2) have "k \<noteq> ''__proto__''" by auto
  then show ?thesis
    using assms(1)
    by (simp add: parseDigestHeader_def challenge_def exec_from_Digest exec_from_directives
        foldl_assign del: append.simps split: option.splits)
qed

theorem parseDigestHeader_plain_challenge_witness:
  "list_all plain_directive
     [\<lparr>d_lead = 0, d_name = ''realm'', d_value = ''DS-2CD2042'', d_quoted = True\<rparr>,
      \<lparr>d_lead = 1, d_name = ''qop'', d_value = ''auth'', d_quoted = False\<rparr>,
      \<lparr>d_lead = 1, d_name = ''nonce'', d_value = ''4e6a:51c2'', d_quoted = True\<rparr>]
   \<and> ''nonce'' \<in> {''realm'', ''nonce'', ''qop''}
   \<and> parseDigestHeader
        (challenge
          [\<lparr>d_lead = 0, d_name = ''realm'', d_value = ''DS-2CD2042'', d_quoted = True\<rparr>,
           \<lparr>d_lead = 1, d_name = ''qop'', d_value = ''auth'', d_quoted = False\<rparr>,
           \<lparr>d_lead = 1, d_name = ''nonce'', d_value = ''4e6a:51c2'', d_quoted = True\<rparr>]) ''nonce''
       = Some ''4e6a:51c2''"
  using parseDigestHeader_plain_challenge
    [of "[\<lparr>d_lead = 0, d_name = ''realm'', d_value = ''DS-2CD2042'', d_quoted = True\<rparr>,
          \<lparr>d_lead = 1, d_name = ''qop'', d_value = ''auth'', d_quoted = False\<rparr>,
          \<lparr>d_lead = 1, d_name = ''nonce'', d_value = ''4e6a:51c2'', d_quoted = True\<rparr>]" "''nonce''"]
  by (simp add: plain_directive_def is_word_def is_val_def directive_alist_def)

text \<open>
  Claim C5 as stated fails on well-formed challenges: a quoted value is cut at its first
  comma or apostrophe, a directive with an empty quoted value is not extracted at all, and
  a directive whose name ends in a hyphen and realm is taken for realm.
\<close>

theorem parseDigestHeader_comma_counterexample:
  "list_all wellformed_directive
     [\<lparr>d_lead = 0, d_name = ''realm'', d_value = ''Door, north'', d_quoted = True\<rparr>,
      \<lparr>d_lead = 1, d_name = ''nonce'', d_value = ''4e6a'', d_quoted = True\<rparr>,
      \<lparr>d_lead = 1, d_name = ''qop'', d_value = ''auth'', d_quoted = True\<rparr>,
      \<lparr>d_lead = 1, d_name = ''opaque'', d_value = '''', d_quoted = True\<rparr>]
   \<and> parseDigestHeader
        (challenge
          [\<lparr>d_lead = 0, d_name = ''realm'', d_value = ''Door, north'', d_quoted = True\<rparr>,
           \<lparr>d_lead = 1, d_name = ''nonce'', d_value = ''4e6a'', d_quoted = True\<rparr>,
           \<lparr>d_lead = 1, d_name = ''qop'', d_value = ''auth'', d_quoted = True\<rparr>,
           \<lparr>d_lead = 1, d_name = ''opaque'', d_value = '''', d_quoted = True\<rparr>]) ''realm''
       = Some ''Door''
   \<and> list_all wellformed_directive
     [\<lparr>d_lead = 0, d_name = ''realm'', d_value = '''', d_quoted = True\<rparr>,
      \<lparr>d_lead = 1, d_name = ''nonce'', d_value = ''4e6a'', d_quoted = True\<rparr>]
   \<and> parseDigestHeader
        (challenge
          [\<lparr>d_lead = 0, d_name = ''realm'', d_value = '''', d_quoted = True\<rparr>,
           \<lparr>d_lead = 1, d_name = ''nonce'', d_value = ''4e6a'', d_quoted = True\<rparr>]) ''realm''
       = None
   \<and> list_all wellformed_directive
     [\<lparr>d_lead = 0, d_name = ''realm'', d_value = ''Porter's lodge'', d_quoted = True\<rparr>,
      \<lparr>d_lead = 1, d_name = ''nonce'', d_value = ''4e6a'', d_quoted = True\<rparr>]
   \<and> parseDigestHeader
        (challenge
          [\<lparr>d_lead = 0, d_name = ''realm'', d_value = ''Porter's lodge'', d_quoted = True\<rparr>,
           \<lparr>d_lead = 1, d_name = ''nonce'', d_value = ''4e6a'', d_quoted = True\<rparr>]) ''realm''
       = Some ''Porter''
   \<and> list_all wellformed_directive
     [\<lparr>d_lead = 0, d_name = ''realm'', d_value = ''DS-2CD2042'', d_quoted = True\<rparr>,
      \<lparr>d_lead = 1, d_name = ''x-realm'', d_value = ''other'', d_quoted = False\<rparr>]
   \<and> parseDigestHeader
        (challenge
          [\<lparr>d_lead = 0, d_name = ''realm'', d_value = ''DS-2CD2042'', d_quoted = True\<rparr>,
           \<lparr>d_lead = 1, d_name = ''x-realm'', d_value = ''other'', d_quoted = False\<rparr>]) ''realm''
       = Some ''other''"
  by (simp add: wellformed_directive_def is_tchar_def is_word_def challenge_def
      render_directive_def dq_def parseDigestHeader_def match_here_def is_val_def is_quote_def
      assign_def)

subsection \<open>The digest response\<close>

lemma hex_digit_in: "n < 16 \<Longrightarrow> hex_digit n \<in> set ''0123456789abcdef''"
  unfolding hex_digit_def by (rule nth_mem) simp

lemma toString_hex_length: "length (toString_hex bs) = 2 * length bs"
  by (induction bs) (simp_all add: toString_hex_def)

lemma toString_hex_digits: "list_all (\<lambda>c. c \<in> set ''0123456789abcdef'') (toString_hex bs)"
proof (induction bs)
  case Nil
  show ?case by (simp add: toString_hex_def)
next
  case (Cons b bs)
  have "unat b < 256" using unsigned_less [of b, where ?'a = nat] by simp
  then have "unat b div 16 < 16" and "unat b mod 16 < 16" by simp_all
  then have "hex_digit (unat b div 16) \<in> set ''0123456789abcdef''"
    and "hex_digit (unat b mod 16) \<in> set ''0123456789abcdef''"
    by (simp_all only: hex_digit_in)
  with Cons show ?case by (simp add: toString_hex_def)
qed

text \<open>
  Claim C4: with the user name, the password and the three directives of the challenge
  given, the header that \<open>generateDigestAuth\<close> builds carries
  response = md5(HA1:nonce:nc:cnonce:qop:HA2) with HA1 = md5(username:realm:password),
  HA2 = md5(method:uri) and nc = 00000001; the cnonce is the hexadecimal form of the 16
  random bytes drawn for the call, 32 hexadecimal digits. The header is a function of these
  inputs alone, so the same inputs give the same response.
\<close>

theorem generateDigestAuth_response:
  assumes "username cfg = Some user" and "password cfg = Some pass"
    and "digestParams ''realm'' = Some realm" and "digestParams ''nonce'' = Some nonce"
    and "digestParams ''qop'' = Some qop" and "length randomBytes = 16"
  shows "generateDigestAuth md5 randomBytes cfg meth uri digestParams =
           ''Digest username='' @ dq @ user @ dq @ '', realm='' @ dq @ realm @ dq
             @ '', nonce='' @ dq @ nonce @ dq @ '', uri='' @ dq @ uri @ dq
             @ '', qop='' @ qop @ '', nc=00000001''
             @ '', cnonce='' @ dq @ toString_hex randomBytes @ dq
             @ '', response='' @ dq
             @ digest_response md5
                 \<lparr>di_username = user, di_realm = realm, di_password = pass, di_method = meth,
                  di_uri = uri, di_nonce = nonce, di_nc = ''00000001'',
                  di_cnonce = toString_hex randomBytes, di_qop = qop\<rparr> @ dq
         \<and> length (toString_hex randomBytes) = 32
         \<and> list_all (\<lambda>c. c \<in> set ''0123456789abcdef'') (toString_hex randomBytes)"
proof (intro conjI)
  show "length (toString_hex randomBytes) = 32"
    using assms(6) by (simp add: toString_hex_length)
  show "list_all (\<lambda>c. c \<in> set ''0123456789abcdef'') (toString_hex randomBytes)"
    by (rule toString_hex_digits)
qed (simp add: generateDigestAuth_def digest_response_def digest_HA1_def digest_HA2_def
      tmpl_def assms Let_def)

theorem generateDigestAuth_response_witness:
  "username cfg_ex = Some ''admin'' \<and> password cfg_ex = Some ''12345''
   \<and> parseDigestHeader challenge_ex ''realm'' = Some ''DS-2CD2042''
   \<and> parseDigestHeader challenge_ex ''nonce'' = Some ''4e6a51c2''
   \<and> parseDigestHeader challenge_ex ''qop'' = Some ''auth''
   \<and> length random_ex = 16
   \<and> generateDigestAuth hash_ex random_ex cfg_ex ''GET'' ''/ISAPI/System/deviceInfo''
         (parseDigestHeader challenge_ex) =
       ''Digest username='' @ dq @ ''admin'' @ dq @ '', realm='' @ dq @ ''DS-2CD2042'' @ dq
         @ '', nonce='' @ dq @ ''4e6a51c2'' @ dq @ '', uri='' @ dq @ ''/ISAPI/System/deviceInfo'' @ dq
         @ '', qop=auth, nc=00000001, cnonce='' @ dq @ ''00112233445566778899aabbccddeeff'' @ dq
         @ '', response='' @ dq
         @ ''md5<md5<admin:DS-2CD2042:12345>:4e6a51c2:00000001:00112233445566778899aabbccddeeff:auth:md5<GET:/ISAPI/System/deviceInfo>>''
         @ dq"
proof -
  have p: "parseDigestHeader challenge_ex ''realm'' = Some ''DS-2CD2042''"
    "parseDigestHeader challenge_ex ''nonce'' = Some ''4e6a51c2''"
    "parseDigestHeader challenge_ex ''qop'' = Some ''auth''"
    by (simp_all add: parseDigestHeader_def challenge_ex_def dq_def match_here_def is_word_def
        is_val_def is_quote_def assign_def)
  have c: "username cfg_ex = Some ''admin''" "password cfg_ex = Some ''12345''"
    by (simp_all add: cfg_ex_def)
  have l: "length random_ex = 16" by (simp add: random_ex_def)
  have h: "toString_hex random_ex = ''00112233445566778899aabbccddeeff''"
    by (simp add: toString_hex_def random_ex_def hex_digit_def)
  show ?thesis
    using generateDigestAuth_response [OF c p l, of hash_ex "''GET''" "''/ISAPI/System/deviceInfo''"]
    by (simp add: p c l h digest_response_def digest_HA1_def digest_HA2_def hash_ex_def)
qed

subsection \<open>The two-phase conversation\<close>


lemma follow_unfold:
  "follow dev rewrite k req d =
     (case dev d req of
        (NetworkError c m, d') \<Rightarrow> (NetworkError c m, d', [req])
      | (Response r, d') \<Rightarrow>
          if is_redirect r
          then if k = 0
               then (NetworkError ''ERR_FR_TOO_MANY_REDIRECTS'' ''Maximum number of redirects exceeded'',
                     d', [req])
               else (case follow dev rewrite (k - 1) (rewrite req r) d' of
                       (rep, d'', hops) \<Rightarrow> (rep, d'', req # hops))
          else (Response r, d', [req]))"
  by (cases k) (simp_all split: prod.splits reply.splits)



lemma follow_failure:
  assumes "dev d req = (NetworkError c m, d')"
  shows "follow dev rewrite k req d = (NetworkError c m, d', [req])"
  using assms by (cases k) simp_all


lemma client_request_sent:
  "sent (snd (client_request cfg dev v req n)) = sent n @ [req]"
  by (simp add: client_request_def Let_def split: prod.splits reply.splits)



lemma client_request_failure:
  assumes "dev (dev_state n) req = (NetworkError c m, d')"
  shows "client_request cfg dev v req n =
           (Inl \<lparr>err_message = m, err_code = Some c, err_response = None\<rparr>,
            \<lparr>dev_state = d', sent = sent n @ [req], wire = wire n @ [req]\<rparr>)"
  using assms by (simp add: client_request_def follow_failure)


text \<open>
  The test of the source, \<^verbatim>\<open>authHeader.includes('Digest')\<close>, holds for every header
  that contains a challenge of the grammar above.
\<close>

lemma str_includes_infix: "str_includes (pre @ sub @ post) sub"
proof (induction pre)
  case Nil
  show ?case
  proof (cases "sub @ post")
    case Nil
    then show ?thesis by simp
  next
    case (Cons a list)
    have "take (length sub) (sub @ post) = sub" by simp
    with Cons show ?thesis by simp
  qed
next
  case (Cons c pre)
  then show ?case by simp
qed

lemma challenge_includes_Digest: "str_includes (pre @ challenge ds @ post) ''Digest''"
  using str_includes_infix [of pre "''Digest''" "'' '' @ render_directives ds @ post"]
  by (simp add: challenge_def)







subsection \<open>The operations\<close>

lemma client_request_sentD:
  "client_request cfg dev v req n = (r, n1) \<Longrightarrow> sent n1 = sent n @ [req]"
  using client_request_sent [of cfg dev v req n] by simp

lemma makeAuthenticatedRequest_requests:
  fixes dev :: "'d device"
  assumes "makeAuthenticatedRequest md5 randomBytes cfg dev meth endpoint body hdrs n = (res, n')"
  shows "\<exists>reqs. sent n' = sent n @ reqs \<and> reqs \<noteq> [] \<and>
           list_all (\<lambda>req. req_method req = meth \<and> url req = baseURL cfg @ endpoint \<and> data req = body) reqs"
  using assms
  by (auto simp: makeAuthenticatedRequest_def Let_def
      split: prod.splits sum.splits if_splits option.splits
      dest!: client_request_sentD)


lemma makeAuthenticatedRequest_unreachable:
  "makeAuthenticatedRequest md5 rb cfg_ex unreachable meth endpoint body hdrs net_ex =
     (Inl (new_Error ''Cannot connect to Hikvision device at 192.168.1.64''),
      \<lparr>dev_state = (),
       sent = [\<lparr>req_method = meth, url = ''http://192.168.1.64'' @ endpoint,
                data = body, headers = hdrs\<rparr>],
       wire = [\<lparr>req_method = meth, url = ''http://192.168.1.64'' @ endpoint,
                data = body, headers = hdrs\<rparr>]\<rparr>)"
proof -
  have "unreachable d req = (NetworkError ''ECONNREFUSED'' ''connect ECONNREFUSED 192.168.1.64:80'', ())"
    for d req
    by (simp add: unreachable_def)
  note refused = client_request_failure [where dev = unreachable, OF this]
  have "baseURL cfg_ex = ''http://192.168.1.64''" "deviceIP cfg_ex = Some ''192.168.1.64''"
    by (simp_all add: baseURL_def cfg_ex_def tmpl_def)
  then show ?thesis
    by (simp add: makeAuthenticatedRequest_def refused net_ex_def rethrow_def tmpl_def Let_def)
qed


lemma enrollFace_requests:
  fixes dev :: "'d device"
  assumes "enrollFace md5 rb now cfg dev personId imageBuffer personName n = (res, n')"
  shows "\<exists>reqs. sent n' = sent n @ reqs \<and> reqs \<noteq> [] \<and>
           list_all (\<lambda>req. req_method req = ''POST''
                       \<and> url req = baseURL cfg @ ''/ISAPI/Intelligent/FDLib/FDSet''
                       \<and> data req = Some
                           \<lparr>faceLibType = ''blackFD'', FDID = ''1'',
                            FPID = number_toString personId,
                            name = (if personName = [] then ''Person_'' @ number_toString personId
                                    else personName),
                            bornTime = takeWhile (\<lambda>c. c \<noteq> CHR ''T'') now,
                            sex = ''unknown'',
                            faceURL = ''data:image/jpeg;base64,'' @ toString_base64 imageBuffer\<rparr>)
             reqs"
proof -
  let ?fd = "\<lparr>faceLibType = ''blackFD'', FDID = ''1'', FPID = number_toString personId,
              name = (if personName \<noteq> [] then personName else ''Person_'' @ number_toString personId),
              bornTime = takeWhile (\<lambda>c. c \<noteq> CHR ''T'') now, sex = ''unknown'',
              faceURL = ''data:image/jpeg;base64,'' @ toString_base64 imageBuffer\<rparr>"
  let ?call = "makeAuthenticatedRequest md5 rb cfg dev ''POST'' ''/ISAPI/Intelligent/FDLib/FDSet''
                 (Some ?fd) [(''Content-Type'', ''application/json''), (''Accept'', ''application/json'')] n"
  have "snd ?call = n'"
    using assms unfolding enrollFace_def Let_def
    by (auto split: prod.splits sum.splits)
  then have "?call = (fst ?call, n')"
    by (metis prod.collapse)
  from makeAuthenticatedRequest_requests [OF this] show ?thesis
    by (auto cong: if_cong)
qed

text \<open>
  Claim C9: every request that \<open>enrollFace\<close> sends, and it sends at least one, is a POST to
  the library-set endpoint whose body has the seven fields: the fixed library identifiers,
  FPID the subject id as a decimal string, the display name or Person_<id> when it is empty,
  bornTime the date part of the current time in ISO form, sex unknown, and faceURL the
  image bytes in base64 behind the data-URL prefix.
\<close>

theorem enrollFace_payload:
  fixes dev :: "'d device"
  assumes "enrollFace md5 rb now cfg dev personId imageBuffer personName n = (res, n')"
    and "now = date @ ''T'' @ time" and "CHR ''T'' \<notin> set date"
  shows "\<exists>reqs. sent n' = sent n @ reqs \<and> reqs \<noteq> [] \<and>
           list_all (\<lambda>req. req_method req = ''POST''
                       \<and> url req = baseURL cfg @ ''/ISAPI/Intelligent/FDLib/FDSet''
                       \<and> data req = Some
                           \<lparr>faceLibType = ''blackFD'', FDID = ''1'',
                            FPID = number_toString personId,
                            name = (if personName = [] then ''Person_'' @ number_toString personId
                                    else personName),
                            bornTime = date,
                            sex = ''unknown'',
                            faceURL = ''data:image/jpeg;base64,'' @ toString_base64 imageBuffer\<rparr>)
             reqs"
proof -
  have "takeWhile (\<lambda>c. c \<noteq> CHR ''T'') now = date"
  proof -
    have "takeWhile (\<lambda>c. c \<noteq> CHR ''T'') (date @ CHR ''T'' # time)
            = date @ takeWhile (\<lambda>c. c \<noteq> CHR ''T'') (CHR ''T'' # time)"
      using assms(3) by (intro takeWhile_append2) auto
    then show ?thesis using assms(2) by simp
  qed
  with enrollFace_requests [OF assms(1)] show ?thesis
    by simp
qed

theorem enrollFace_payload_witness:
  "now_ex = ''2024-05-06'' @ ''T'' @ ''10:11:12.000Z'' \<and> CHR ''T'' \<notin> set ''2024-05-06''
   \<and> (\<exists>reqs. sent (snd (enrollFace hash_ex random_ex now_ex cfg_ex digest_device 7
                           (buffer jpeg_ex) [] net_ex)) = reqs \<and> reqs \<noteq> [] \<and>
           list_all (\<lambda>req. req_method req = ''POST''
                       \<and> url req = ''http://192.168.1.64/ISAPI/Intelligent/FDLib/FDSet''
                       \<and> data req = Some
                           \<lparr>faceLibType = ''blackFD'', FDID = ''1'', FPID = ''7'',
                            name = ''Person_7'', bornTime = ''2024-05-06'', sex = ''unknown'',
                            faceURL = ''data:image/jpeg;base64,/9j/4AA=''\<rparr>)
             reqs)"
proof -
  let ?call = "enrollFace hash_ex random_ex now_ex cfg_ex digest_device 7 (buffer jpeg_ex) [] net_ex"
  have a: "?call = (fst ?call, snd ?call)" by simp
  have b: "now_ex = ''2024-05-06'' @ ''T'' @ ''10:11:12.000Z''" by (simp add: now_ex_def)
  have c: "CHR ''T'' \<notin> set ''2024-05-06''" by simp
  have d: "number_toString 7 = ''7''" by (simp add: number_toString_def digits.simps)
  have e: "toString_base64 (buffer jpeg_ex) = ''/9j/4AA=''"
    by (simp add: jpeg_ex_def b64_char_def)
  have f: "baseURL cfg_ex = ''http://192.168.1.64''"
    by (simp add: baseURL_def cfg_ex_def tmpl_def)
  from enrollFace_payload [OF a b c] show ?thesis
    by (simp add: b d e f net_ex_def)
qed


section \<open>Properties of the enrollment endpoint\<close>

lemma face_updateMany_ids:
  "map facialID (face_tbl (face_updateMany d ids)) = map facialID (face_tbl d)"
  by (simp add: face_updateMany_def comp_def if_distrib [of facialID] cong: if_cong)

lemma face_updateMany_nothing:
  "face_updateMany d [] = d"
  by (simp add: face_updateMany_def)

lemma enroll_transaction_Inr:
  assumes "enroll_transaction flt newId d pid buf = Inr (nf, d')"
  shows "nf = \<lparr>facialID = newId, templateData = Some buf, activo = True\<rparr>"
    and "newId \<notin> facialID ` set (face_tbl d)"
    and "\<not> list_ex (\<lambda>pf. pf_personaID pf = pid \<and> pf_facialID pf = newId) (perface_tbl d)"
    and "face_tbl d' =
           map (\<lambda>x. if facialID x \<in> pf_facialID ` set (perface_findMany d pid)
                     then x\<lparr>activo := False\<rparr> else x) (face_tbl d) @ [nf]"
    and "perface_tbl d' = perface_tbl d @ [\<lparr>pf_personaID = pid, pf_facialID = newId\<rparr>]"
    and "per_tbl d' = per_tbl d"
    and "\<not> tx_fails flt"
proof -
  let ?d1 = "face_updateMany d (map pf_facialID (perface_findMany d pid))"
  have d1: "(if length (perface_findMany d pid) > 0 then ?d1 else d) = ?d1"
    by (simp add: face_updateMany_nothing)
  from assms have tx: "\<not> tx_fails flt"
    by (auto simp: enroll_transaction_def)
  with assms d1 have run:
    "(case face_create newId ?d1 buf of Inl e \<Rightarrow> Inl e
      | Inr (newFace, d2) \<Rightarrow>
          (case perface_create d2 pid (facialID newFace) of Inl e \<Rightarrow> Inl e
           | Inr d3 \<Rightarrow> Inr (newFace, d3))) = Inr (nf, d')"
    by (simp add: enroll_transaction_def Let_def)
  have ids: "set (map facialID (face_tbl ?d1)) = facialID ` set (face_tbl d)"
    by (simp only: face_updateMany_ids set_map)
  from run have fresh: "newId \<notin> set (map facialID (face_tbl ?d1))"
    by (auto simp: face_create_def split: if_splits)
  then show "newId \<notin> facialID ` set (face_tbl d)"
    using ids by simp
  from run fresh have created:
    "nf = \<lparr>facialID = newId, templateData = Some buf, activo = True\<rparr>"
    "perface_create (?d1\<lparr>face_tbl := face_tbl ?d1 @ [nf]\<rparr>) pid newId = Inr d'"
    by (auto simp: face_create_def Let_def split: if_splits sum.splits)
  show "nf = \<lparr>facialID = newId, templateData = Some buf, activo = True\<rparr>"
    by (rule created(1))
  from created(2) show "\<not> list_ex (\<lambda>pf. pf_personaID pf = pid \<and> pf_facialID pf = newId) (perface_tbl d)"
    and "face_tbl d' =
           map (\<lambda>x. if facialID x \<in> pf_facialID ` set (perface_findMany d pid)
                     then x\<lparr>activo := False\<rparr> else x) (face_tbl d) @ [nf]"
    and "perface_tbl d' = perface_tbl d @ [\<lparr>pf_personaID = pid, pf_facialID = newId\<rparr>]"
    and "per_tbl d' = per_tbl d"
    by (auto simp: perface_create_def face_updateMany_def split: if_splits)
  show "\<not> tx_fails flt" by (rule tx)
qed

lemma enroll_route_200:
  assumes "enroll_route svc flt newId d (Some pid) (Some f) n = (rep, d', n')"
    and "reply_status rep = 200"
  shows "\<exists>persona nf.
           per_findUnique flt d pid = Inr (Some persona)
         \<and> enroll_transaction flt newId d pid (buffer f) = Inr (nf, d')
         \<and> n' = snd (svc pid (buffer f) (display_name persona pid) n)
         \<and> (\<exists>j. reply_json rep = EnrollJson j \<and> faceId j = facialID nf
                \<and> deactivatedFaces j = perface_count d' pid False)"
  using assms
  by (auto simp: enroll_route_def enroll_handler_def failed_500_def Let_def
      split: if_splits option.splits sum.splits prod.splits)

lemma list_ex_map_snoc:
  "list_ex P (map g xs @ [y]) \<longleftrightarrow> (\<exists>x\<in>set xs. P (g x)) \<or> P y"
  by (auto simp: list_ex_iff)

lemma length_filter_disj:
  assumes "\<And>x. x \<in> set xs \<Longrightarrow> \<not> (P x \<and> Q x)"
  shows "length (filter (\<lambda>x. P x \<or> Q x) xs) = length (filter P xs) + length (filter Q xs)"
  using assms by (induction xs) auto

lemma distinct_ids_same_face:
  assumes "distinct (map facialID fs)" and "x \<in> set fs" and "y \<in> set fs"
    and "facialID x = facialID y"
  shows "x = y"
  using assms by (meson distinct_map inj_on_eq_iff)

lemma perface_count_after:
  assumes tx: "enroll_transaction flt newId d pid buf = Inr (nf, d')"
  shows "perface_count d' pid True = 1"
    and "distinct (map facialID (face_tbl d))
         \<Longrightarrow> perface_count d' pid False = perface_count d pid True + perface_count d pid False"
proof -
  note t = enroll_transaction_Inr [OF tx]
  let ?rows = "perface_tbl d" and ?faces = "face_tbl d"
  let ?new = "\<lparr>pf_personaID = pid, pf_facialID = newId\<rparr>"
  let ?has = "\<lambda>act pf. list_ex (\<lambda>x. facialID x = pf_facialID pf \<and> activo x = act) (face_tbl d')"
  have old_row: "?has act pf = (\<not> act \<and> pf_facialID pf \<in> facialID ` set ?faces)"
    if "pf \<in> set ?rows" and "pf_personaID pf = pid" for pf act
  proof -
    let ?g = "\<lambda>x. if facialID x \<in> pf_facialID ` set (perface_findMany d pid)
                   then x\<lparr>activo := False\<rparr> else x"
    from that t(3) have ne: "pf_facialID pf \<noteq> newId"
      by (auto simp: list_ex_iff)
    from that have linked: "pf_facialID pf \<in> pf_facialID ` set (perface_findMany d pid)"
      by (simp add: perface_findMany_def)
    have g: "facialID (?g x) = pf_facialID pf \<and> activo (?g x) = act
               \<longleftrightarrow> facialID x = pf_facialID pf \<and> \<not> act" for x
      using linked by (cases "facialID x = pf_facialID pf") auto
    have "?has act pf \<longleftrightarrow>
            (\<exists>x\<in>set ?faces. facialID (?g x) = pf_facialID pf \<and> activo (?g x) = act)
            \<or> (facialID nf = pf_facialID pf \<and> activo nf = act)"
      unfolding t(4) by (rule list_ex_map_snoc)
    also have "\<dots> \<longleftrightarrow>
            (\<exists>x\<in>set ?faces. facialID (?g x) = pf_facialID pf \<and> activo (?g x) = act)"
      using ne by (simp add: t(1))
    also have "\<dots> \<longleftrightarrow> (\<exists>x\<in>set ?faces. facialID x = pf_facialID pf \<and> \<not> act)"
      unfolding g ..
    also have "\<dots> \<longleftrightarrow> (\<not> act \<and> pf_facialID pf \<in> facialID ` set ?faces)"
      by (auto simp: image_iff) metis
    finally show ?thesis .
  qed
  have new_row: "?has act ?new = act" for act
  proof -
    let ?g = "\<lambda>x. if facialID x \<in> pf_facialID ` set (perface_findMany d pid)
                   then x\<lparr>activo := False\<rparr> else x"
    have gid: "facialID (?g x) = facialID x" for x
      by simp
    have "facialID (?g x) \<noteq> newId" if "x \<in> set ?faces" for x
      unfolding gid using that t(2) by blast
    then have "\<not> (\<exists>x\<in>set ?faces. facialID (?g x) = pf_facialID ?new \<and> activo (?g x) = act)"
      by simp
    moreover have "?has act ?new \<longleftrightarrow>
            (\<exists>x\<in>set ?faces. facialID (?g x) = pf_facialID ?new \<and> activo (?g x) = act)
            \<or> (facialID nf = pf_facialID ?new \<and> activo nf = act)"
      unfolding t(4) by (rule list_ex_map_snoc)
    moreover have "(facialID nf = pf_facialID ?new \<and> activo nf = act) \<longleftrightarrow> act"
      by (auto simp: t(1))
    ultimately show ?thesis
      by blast
  qed
  have "filter (\<lambda>pf. pf_personaID pf = pid \<and> ?has True pf) (perface_tbl d') = [?new]"
    using old_row [of _ True] new_row [of True]
    by (auto simp: t(5) filter_empty_conv)
  then show "perface_count d' pid True = 1"
    by (simp add: perface_count_def)
  assume dist: "distinct (map facialID ?faces)"
  let ?A = "\<lambda>pf. pf_personaID pf = pid
                \<and> list_ex (\<lambda>x. facialID x = pf_facialID pf \<and> activo x = True) ?faces"
  let ?B = "\<lambda>pf. pf_personaID pf = pid
                \<and> list_ex (\<lambda>x. facialID x = pf_facialID pf \<and> activo x = False) ?faces"
  have either: "?A pf \<or> ?B pf \<longleftrightarrow>
                  pf_personaID pf = pid \<and> pf_facialID pf \<in> facialID ` set ?faces" for pf
    unfolding list_ex_iff image_iff by (cases "pf_personaID pf = pid") (simp_all, metis)
  have "filter (\<lambda>pf. pf_personaID pf = pid \<and> ?has False pf) ?rows
          = filter (\<lambda>pf. ?A pf \<or> ?B pf) ?rows"
  proof (rule filter_cong [OF refl])
    fix pf assume "pf \<in> set ?rows"
    then show "(pf_personaID pf = pid \<and> ?has False pf) = (?A pf \<or> ?B pf)"
      unfolding either using old_row [of pf False] by (cases "pf_personaID pf = pid") simp_all
  qed
  moreover have "filter (\<lambda>pf. pf_personaID pf = pid \<and> ?has False pf) [?new] = []"
    using new_row [of False] by simp
  ultimately have "filter (\<lambda>pf. pf_personaID pf = pid \<and> ?has False pf) (perface_tbl d')
          = filter (\<lambda>pf. ?A pf \<or> ?B pf) ?rows"
    unfolding t(5) filter_append by simp
  moreover have "length (filter (\<lambda>pf. ?A pf \<or> ?B pf) ?rows)
                   = length (filter ?A ?rows) + length (filter ?B ?rows)"
  proof (rule length_filter_disj)
    fix pf
    show "\<not> (?A pf \<and> ?B pf)"
    proof
      assume "?A pf \<and> ?B pf"
      then obtain x y where "x \<in> set ?faces" "y \<in> set ?faces"
        "facialID x = pf_facialID pf" "facialID y = pf_facialID pf" "activo x" "\<not> activo y"
        by (auto simp: list_ex_iff)
      with distinct_ids_same_face [OF dist, of x y] show False
        by auto
    qed
  qed
  ultimately show "perface_count d' pid False = perface_count d pid True + perface_count d pid False"
    by (simp add: perface_count_def)
qed

text \<open>
  Claim C2, as the code has it: on a store whose face keys are distinct, an enrollment that
  is answered with 200 sets inactive exactly the faces linked to the subject and leaves every
  other face as it was; it appends one new active face holding the image, under a key that
  no face had, and one link row from the subject to it. Afterwards the subject has exactly
  one link to an active face, and N more links to inactive faces than before, where N is
  the number of its links to active faces before. The field deactivatedFaces of the response
  is the number of the subject's links to inactive faces after the enrollment: N plus the
  number M of its links to faces that were inactive already.
\<close>

theorem enroll_store_effect:
  assumes "distinct (map facialID (face_tbl d))"
    and "enroll_route svc flt newId d (Some pid) (Some f) n = (rep, d', n')"
    and "reply_status rep = 200"
  shows "face_tbl d' =
           map (\<lambda>x. if facialID x \<in> pf_facialID ` set (perface_findMany d pid)
                     then x\<lparr>activo := False\<rparr> else x) (face_tbl d)
             @ [\<lparr>facialID = newId, templateData = Some (buffer f), activo = True\<rparr>]
       \<and> newId \<notin> facialID ` set (face_tbl d)
       \<and> perface_tbl d' = perface_tbl d @ [\<lparr>pf_personaID = pid, pf_facialID = newId\<rparr>]
       \<and> per_tbl d' = per_tbl d
       \<and> perface_count d' pid True = 1
       \<and> perface_count d' pid False = perface_count d pid True + perface_count d pid False
       \<and> (\<exists>j. reply_json rep = EnrollJson j \<and> faceId j = newId
              \<and> deactivatedFaces j = perface_count d pid True + perface_count d pid False)"
proof -
  from enroll_route_200 [OF assms(2,3)] obtain nf j where
    tx: "enroll_transaction flt newId d pid (buffer f) = Inr (nf, d')"
    and j: "reply_json rep = EnrollJson j" "faceId j = facialID nf"
           "deactivatedFaces j = perface_count d' pid False"
    by blast
  note t = enroll_transaction_Inr [OF tx]
  note c = perface_count_after [OF tx]
  show ?thesis
    using t(2,5,6) c(1) c(2) [OF assms(1)] j
    by (simp add: t(4) t(1))
qed

theorem enroll_store_effect_witness:
  "distinct (map facialID (face_tbl store_two_active))
   \<and> reply_status (fst (enroll_route (enrollFace hash_ex random_ex now_ex cfg_ex unreachable)
                          no_faults 3 store_two_active (Some 7) (Some jpeg_ex) net_ex)) = 200
   \<and> perface_count store_two_active 7 True = 2
   \<and> perface_count store_two_active 7 False = 0
   \<and> perface_count (fst (snd (enroll_route (enrollFace hash_ex random_ex now_ex cfg_ex unreachable)
                                 no_faults 3 store_two_active (Some 7) (Some jpeg_ex) net_ex))) 7 True = 1
   \<and> perface_count (fst (snd (enroll_route (enrollFace hash_ex random_ex now_ex cfg_ex unreachable)
                                 no_faults 3 store_two_active (Some 7) (Some jpeg_ex) net_ex))) 7 False = 2
   \<and> (\<exists>j. reply_json (fst (enroll_route (enrollFace hash_ex random_ex now_ex cfg_ex unreachable)
                               no_faults 3 store_two_active (Some 7) (Some jpeg_ex) net_ex)) = EnrollJson j
          \<and> faceId j = 3 \<and> deactivatedFaces j = 2)"
proof -
  let ?run = "enroll_route (enrollFace hash_ex random_ex now_ex cfg_ex unreachable)
                no_faults 3 store_two_active (Some 7) (Some jpeg_ex) net_ex"
  have a: "distinct (map facialID (face_tbl store_two_active))"
    by (simp add: store_two_active_def)
  have b: "?run = (fst ?run, fst (snd ?run), snd (snd ?run))" by simp
  have c: "reply_status (fst ?run) = 200"
    by (simp add: enroll_route_def enroll_handler_def jpeg_ex_def fileFilter_def no_faults_def
        per_findUnique_def per_lookup_def int32_def store_two_active_def enroll_transaction_def
        perface_findMany_def face_updateMany_def face_create_def perface_create_def Let_def
        split: prod.splits)
  have n: "perface_count store_two_active 7 True = 2" "perface_count store_two_active 7 False = 0"
    by (simp_all add: perface_count_def store_two_active_def)
  from enroll_store_effect [OF a b c] show ?thesis
    using a c n by simp
qed

text \<open>
  Claim C2 as stated fails on the last point: for a subject with one active face and one
  face that an earlier enrollment has made inactive, N is 1 and the response reports 2.
\<close>

theorem deactivatedFaces_counterexample:
  "per_lookup store_one_active 7 \<noteq> None
   \<and> perface_count store_one_active 7 True = 1
   \<and> reply_json (fst (enroll_route (enrollFace hash_ex random_ex now_ex cfg_ex digest_device)
                         no_faults 3 store_one_active (Some 7) (Some jpeg_ex) net_ex))
       = EnrollJson
           \<lparr>ok_success = True, ok_message = ''Face enrolled successfully to database'',
            faceId = 3, deactivatedFaces = 2,
            hikvision = \<lparr>hk_success = True,
                         hk_message = ''Face enrolled successfully to Hikvision device'',
                         hk_error = None\<rparr>\<rparr>"
proof -
  have accepted:
    "fst (enrollFace hash_ex random_ex now_ex cfg_ex digest_device personId imageBuffer personName net_ex)
       = Inr \<lparr>success = True, deviceInfo = None, res_data = Some (JString ''ok''),
              res_status = Some 200,
              res_message = Some ''Face enrolled successfully to Hikvision device'',
              res_error = None, details = None\<rparr>" for personId imageBuffer personName
    by (simp add: enrollFace_def makeAuthenticatedRequest_def client_request_def follow_unfold
        digest_device_def cfg_ex_def is_redirect_def net_ex_def challenge_ex_def dq_def
        default_validateStatus_def Let_def)
  show ?thesis
    by (simp add: enroll_route_def enroll_handler_def jpeg_ex_def fileFilter_def no_faults_def
        per_findUnique_def per_lookup_def int32_def store_one_active_def enroll_transaction_def
        perface_findMany_def face_updateMany_def face_create_def perface_create_def
        perface_count_def Let_def accepted [simplified jpeg_ex_def] or_default_def
        split_beta)
qed

lemma enroll_route_committed:
  assumes "fileFilter (mimetype f)"
    and "per_findUnique flt d pid = Inr (Some persona)"
    and "enroll_transaction flt newId d pid (buffer f) = Inr (newFace, committed)"
    and "svc pid (buffer f) (display_name persona pid) n = (called, n1)"
  shows "enroll_route svc flt newId d (Some pid) (Some f) n =
           (if count_fails flt then failed_500
            else \<lparr>reply_status = 200,
                  reply_json = EnrollJson
                    \<lparr>ok_success = True, ok_message = ''Face enrolled successfully to database'',
                     faceId = facialID newFace,
                     deactivatedFaces = perface_count committed pid False,
                     hikvision =
                       \<lparr>hk_success = (case called of Inr r \<Rightarrow> success r | Inl e \<Rightarrow> False),
                        hk_message =
                          or_default (case called of Inr r \<Rightarrow> res_message r | Inl e \<Rightarrow> None)
                            (or_default
                               (case called of
                                  Inr r \<Rightarrow> if \<not> success r then res_error r else None
                                | Inl e \<Rightarrow> Some (err_message e))
                               ''Device enrollment failed''),
                        hk_error =
                          (case called of
                             Inr r \<Rightarrow> if \<not> success r then res_error r else None
                           | Inl e \<Rightarrow> Some (err_message e))\<rparr>\<rparr>\<rparr>,
            committed, n1)"
  using assms
  by (cases called) (simp_all add: enroll_route_def enroll_handler_def Let_def)

lemma enroll_route_net:
  assumes run: "enroll_route svc flt newId d parsed (Some f) n = (rep, d', n')"
  shows "(n' = n \<and> d' = d \<and> reply_status rep \<noteq> 200)
       \<or> (\<exists>pid persona called. svc pid (buffer f) (display_name persona pid) n = (called, n'))"
proof (cases "fileFilter (mimetype f)")
  case False
  with run show ?thesis
    by (simp add: enroll_route_def) auto
next
  case ok: True
  show ?thesis
  proof (cases parsed)
    case None
    with run ok show ?thesis
      by (simp add: enroll_route_def enroll_handler_def failed_500_def) auto
  next
    case (Some pid)
    show ?thesis
    proof (cases "per_findUnique flt d pid")
      case (Inl e)
      with run ok Some show ?thesis
        by (simp add: enroll_route_def enroll_handler_def failed_500_def) auto
    next
      case (Inr found)
      show ?thesis
      proof (cases found)
        case None
        with run ok Some Inr show ?thesis
          by (simp add: enroll_route_def enroll_handler_def) auto
      next
        case found: (Some persona)
        show ?thesis
        proof (cases "enroll_transaction flt newId d pid (buffer f)")
          case (Inl e)
          with run ok Some Inr found show ?thesis
            by (simp add: enroll_route_def enroll_handler_def failed_500_def) auto
        next
          case tx: (Inr p)
          obtain newFace committed where p: "p = (newFace, committed)" by (cases p)
          obtain called n1 where c: "svc pid (buffer f) (display_name persona pid) n = (called, n1)"
            by (cases "svc pid (buffer f) (display_name persona pid) n")
          from enroll_route_committed
                 [where svc = svc, OF ok Inr [unfolded found] tx [unfolded p] c] run Some
          have "n' = n1"
            by (simp split: if_splits)
          with c show ?thesis by blast
        qed
      qed
    qed
  qed
qed

lemma enrollFace_unreachable:
  "enrollFace md5 rb now cfg_ex unreachable personId imageBuffer personName net_ex =
     (let req = \<lparr>req_method = ''POST'',
                 url = ''http://192.168.1.64/ISAPI/Intelligent/FDLib/FDSet'',
                 data = Some \<lparr>faceLibType = ''blackFD'', FDID = ''1'',
                               FPID = number_toString personId,
                               name = (if personName \<noteq> [] then personName
                                       else ''Person_'' @ number_toString personId),
                               bornTime = takeWhile (\<lambda>c. c \<noteq> CHR ''T'') now,
                               sex = ''unknown'',
                               faceURL = ''data:image/jpeg;base64,'' @ toString_base64 imageBuffer\<rparr>,
                 headers = [(''Content-Type'', ''application/json''),
                            (''Accept'', ''application/json'')]\<rparr>
      in (Inr \<lparr>success = False, deviceInfo = None, res_data = None, res_status = None,
               res_message = None,
               res_error = Some ''Cannot connect to Hikvision device at 192.168.1.64'',
               details = None\<rparr>,
          \<lparr>dev_state = (), sent = [req], wire = [req]\<rparr>))"
  by (simp add: enrollFace_def makeAuthenticatedRequest_unreachable Let_def new_Error_def
      error_status_def error_details_def)




text \<open>
  Claim C1, as the code has it: once the subject is found and the transaction has
  committed, the store the request leaves behind is the committed one whatever the device
  client does, be it a result with the success flag cleared or a thrown error. The reply
  does not depend on the device either: when the count query that follows the mirror step
  is answered, it is 200 with success = true, the id of the new face, and a hikvision part
  of its own (success false with the message and error of the failure, or the flag and
  message of the device client's result); when the store rejects that query, it is 500
  "Failed to enroll face".
\<close>

theorem mirror_failure_keeps_persist:
  assumes "fileFilter (mimetype f)"
    and "per_findUnique flt d pid = Inr (Some persona)"
    and "enroll_transaction flt newId d pid (buffer f) = Inr (newFace, committed)"
    and "svc pid (buffer f) (display_name persona pid) n = (called, n1)"
    and "enroll_route svc flt newId d (Some pid) (Some f) n = (rep, d', n')"
  shows "d' = committed \<and> n' = n1
       \<and> (count_fails flt \<longrightarrow> rep = failed_500)
       \<and> (\<not> count_fails flt \<longrightarrow>
            (\<exists>j. rep = \<lparr>reply_status = 200, reply_json = EnrollJson j\<rparr>
                \<and> ok_success j \<and> faceId j = facialID newFace
                \<and> (case called of
                      Inl e \<Rightarrow>
                        hikvision j =
                          \<lparr>hk_success = False,
                           hk_message = or_default (Some (err_message e)) ''Device enrollment failed'',
                           hk_error = Some (err_message e)\<rparr>
                    | Inr r \<Rightarrow>
                        if success r
                        then hk_success (hikvision j) \<and> hk_error (hikvision j) = None
                        else hikvision j =
                          \<lparr>hk_success = False,
                           hk_message = or_default (res_message r)
                                          (or_default (res_error r) ''Device enrollment failed''),
                           hk_error = res_error r\<rparr>)))"
proof -
  let ?hk_error = "case called of
                     Inr r \<Rightarrow> if \<not> success r then res_error r else None
                   | Inl e \<Rightarrow> Some (err_message e)"
  let ?j = "\<lparr>ok_success = True, ok_message = ''Face enrolled successfully to database'',
             faceId = facialID newFace,
             deactivatedFaces = perface_count committed pid False,
             hikvision =
               \<lparr>hk_success = (case called of Inr r \<Rightarrow> success r | Inl e \<Rightarrow> False),
                hk_message =
                  or_default (case called of Inr r \<Rightarrow> res_message r | Inl e \<Rightarrow> None)
                    (or_default ?hk_error ''Device enrollment failed''),
                hk_error = ?hk_error\<rparr>\<rparr>"
  have run: "(if count_fails flt then failed_500
              else \<lparr>reply_status = 200, reply_json = EnrollJson ?j\<rparr>, committed, n1)
             = (rep, d', n')"
    using assms(5) unfolding enroll_route_committed [where svc = svc, OF assms(1-4)] .
  then have stores: "d' = committed" "n' = n1"
    by simp_all
  have reply: "\<exists>j. rep = \<lparr>reply_status = 200, reply_json = EnrollJson j\<rparr>
                \<and> ok_success j \<and> faceId j = facialID newFace
                \<and> (case called of
                      Inl e \<Rightarrow>
                        hikvision j =
                          \<lparr>hk_success = False,
                           hk_message = or_default (Some (err_message e)) ''Device enrollment failed'',
                           hk_error = Some (err_message e)\<rparr>
                    | Inr r \<Rightarrow>
                        if success r
                        then hk_success (hikvision j) \<and> hk_error (hikvision j) = None
                        else hikvision j =
                          \<lparr>hk_success = False,
                           hk_message = or_default (res_message r)
                                          (or_default (res_error r) ''Device enrollment failed''),
                           hk_error = res_error r\<rparr>)"
    if ok: "\<not> count_fails flt"
  proof (intro exI [of _ ?j] conjI)
    show "rep = \<lparr>reply_status = 200, reply_json = EnrollJson ?j\<rparr>"
      using run [symmetric] ok by simp
    show "case called of
            Inl e \<Rightarrow>
              hikvision ?j =
                \<lparr>hk_success = False,
                 hk_message = or_default (Some (err_message e)) ''Device enrollment failed'',
                 hk_error = Some (err_message e)\<rparr>
          | Inr r \<Rightarrow>
              if success r
              then hk_success (hikvision ?j) \<and> hk_error (hikvision ?j) = None
              else hikvision ?j =
                \<lparr>hk_success = False,
                 hk_message = or_default (res_message r)
                                (or_default (res_error r) ''Device enrollment failed''),
                 hk_error = res_error r\<rparr>"
      by (cases called) (simp_all add: or_default_def)
  qed simp_all
  have rejected: "rep = failed_500" if "count_fails flt"
    using run [symmetric] that by simp
  from stores reply rejected show ?thesis
    by blast
qed

theorem mirror_failure_keeps_persist_witness:
  "fileFilter (mimetype jpeg_ex) \<and> \<not> count_fails no_faults
   \<and> (\<exists>persona. per_findUnique no_faults store_two_active 7 = Inr (Some persona))
   \<and> (\<exists>nf committed.
         enroll_transaction no_faults 3 store_two_active 7 (buffer jpeg_ex) = Inr (nf, committed)
       \<and> fst (snd (enroll_route (enrollFace hash_ex random_ex now_ex cfg_ex unreachable) no_faults 3
                     store_two_active (Some 7) (Some jpeg_ex) net_ex)) = committed
       \<and> face_tbl committed =
           [\<lparr>facialID = 1, templateData = None, activo = False\<rparr>,
            \<lparr>facialID = 2, templateData = None, activo = False\<rparr>,
            \<lparr>facialID = 3, templateData = Some (buffer jpeg_ex), activo = True\<rparr>])
   \<and> fst (enroll_route (enrollFace hash_ex random_ex now_ex cfg_ex unreachable) no_faults 3
             store_two_active (Some 7) (Some jpeg_ex) net_ex)
       = \<lparr>reply_status = 200,
          reply_json = EnrollJson
            \<lparr>ok_success = True, ok_message = ''Face enrolled successfully to database'',
             faceId = 3, deactivatedFaces = 2,
             hikvision =
               \<lparr>hk_success = False,
                hk_message = ''Cannot connect to Hikvision device at 192.168.1.64'',
                hk_error = Some ''Cannot connect to Hikvision device at 192.168.1.64''\<rparr>\<rparr>\<rparr>"
proof -
  let ?svc = "enrollFace hash_ex random_ex now_ex cfg_ex unreachable"
  let ?run = "enroll_route ?svc no_faults 3 store_two_active (Some 7) (Some jpeg_ex) net_ex"
  let ?persona = "\<lparr>personaID = 7, nombre = Some ''Jose'', apellido = Some ''Gonzalez''\<rparr>"
  let ?nf = "\<lparr>facialID = 3, templateData = Some (buffer jpeg_ex), activo = True\<rparr>"
  let ?committed =
    "\<lparr>per_tbl = [?persona],
      face_tbl = [\<lparr>facialID = 1, templateData = None, activo = False\<rparr>,
                  \<lparr>facialID = 2, templateData = None, activo = False\<rparr>, ?nf],
      perface_tbl = [\<lparr>pf_personaID = 7, pf_facialID = 1\<rparr>, \<lparr>pf_personaID = 7, pf_facialID = 2\<rparr>,
                     \<lparr>pf_personaID = 7, pf_facialID = 3\<rparr>]\<rparr>"
  have a: "fileFilter (mimetype jpeg_ex)"
    by (simp add: fileFilter_def jpeg_ex_def)
  have cf: "\<not> count_fails no_faults" by (simp add: no_faults_def)
  have p: "per_findUnique no_faults store_two_active 7 = Inr (Some ?persona)"
    by (simp add: per_findUnique_def per_lookup_def int32_def no_faults_def store_two_active_def)
  have tx: "enroll_transaction no_faults 3 store_two_active 7 (buffer jpeg_ex) = Inr (?nf, ?committed)"
    by (simp add: enroll_transaction_def no_faults_def perface_findMany_def store_two_active_def
        face_updateMany_def face_create_def perface_create_def Let_def)
  have call: "?svc 7 (buffer jpeg_ex) (display_name ?persona 7) net_ex
                = (fst (?svc 7 (buffer jpeg_ex) (display_name ?persona 7) net_ex),
                   snd (?svc 7 (buffer jpeg_ex) (display_name ?persona 7) net_ex))"
    by simp
  have run: "?run = (fst ?run, fst (snd ?run), snd (snd ?run))" by simp
  have cnt: "perface_count ?committed 7 False = 2"
    by (simp add: perface_count_def)
  from mirror_failure_keeps_persist [where svc = "?svc", OF a p tx call run] cf
  obtain j where d: "fst (snd ?run) = ?committed"
    and j: "fst ?run = \<lparr>reply_status = 200, reply_json = EnrollJson j\<rparr>"
    and hk: "hikvision j =
              \<lparr>hk_success = False,
               hk_message = ''Cannot connect to Hikvision device at 192.168.1.64'',
               hk_error = Some ''Cannot connect to Hikvision device at 192.168.1.64''\<rparr>"
    by (auto simp: enrollFace_unreachable or_default_def Let_def)
  have full: "fst ?run = \<lparr>reply_status = 200,
          reply_json = EnrollJson
            \<lparr>ok_success = True, ok_message = ''Face enrolled successfully to database'',
             faceId = 3, deactivatedFaces = 2, hikvision = hikvision j\<rparr>\<rparr>"
    using j
    by (auto simp: enroll_route_def enroll_handler_def a p tx cf cnt Let_def
        split: prod.splits sum.splits)
  show ?thesis
    using a cf p tx d full hk by simp
qed

text \<open>
  Claim C1 as stated fails on the reply: with subject 7 found, the transaction committed
  (faces 1 and 2 deactivated, face 3 stored) and the device unreachable, a store that
  rejects the count query following the mirror step makes the request end in
  500 "Failed to enroll face", with no success flag, while the committed store stays.
\<close>

theorem mirror_failure_count_rejected_counterexample:
  "fileFilter (mimetype jpeg_ex)
   \<and> per_lookup store_two_active 7 \<noteq> None
   \<and> (case enroll_route (enrollFace hash_ex random_ex now_ex cfg_ex unreachable) count_rejected 3
             store_two_active (Some 7) (Some jpeg_ex) net_ex of
        (rep, d', n') \<Rightarrow>
          rep = \<lparr>reply_status = 500, reply_json = ErrorJson ''Failed to enroll face''\<rparr>
        \<and> face_tbl d' =
            [\<lparr>facialID = 1, templateData = None, activo = False\<rparr>,
             \<lparr>facialID = 2, templateData = None, activo = False\<rparr>,
             \<lparr>facialID = 3, templateData = Some (buffer jpeg_ex), activo = True\<rparr>]
        \<and> perface_tbl d' =
            [\<lparr>pf_personaID = 7, pf_facialID = 1\<rparr>, \<lparr>pf_personaID = 7, pf_facialID = 2\<rparr>,
             \<lparr>pf_personaID = 7, pf_facialID = 3\<rparr>]
        \<and> length (sent n') = 1)"
proof -
  let ?svc = "enrollFace hash_ex random_ex now_ex cfg_ex unreachable"
  let ?persona = "\<lparr>personaID = 7, nombre = Some ''Jose'', apellido = Some ''Gonzalez''\<rparr>"
  let ?nf = "\<lparr>facialID = 3, templateData = Some (buffer jpeg_ex), activo = True\<rparr>"
  let ?committed =
    "\<lparr>per_tbl = [?persona],
      face_tbl = [\<lparr>facialID = 1, templateData = None, activo = False\<rparr>,
                  \<lparr>facialID = 2, templateData = None, activo = False\<rparr>, ?nf],
      perface_tbl = [\<lparr>pf_personaID = 7, pf_facialID = 1\<rparr>, \<lparr>pf_personaID = 7, pf_facialID = 2\<rparr>,
                     \<lparr>pf_personaID = 7, pf_facialID = 3\<rparr>]\<rparr>"
  have a: "fileFilter (mimetype jpeg_ex)"
    by (simp add: fileFilter_def jpeg_ex_def)
  have l: "per_lookup store_two_active 7 = Some ?persona"
    by (simp add: per_lookup_def store_two_active_def)
  have p: "per_findUnique count_rejected store_two_active 7 = Inr (Some ?persona)"
    by (simp add: per_findUnique_def l int32_def count_rejected_def)
  have tx: "enroll_transaction count_rejected 3 store_two_active 7 (buffer jpeg_ex)
              = Inr (?nf, ?committed)"
    by (simp add: enroll_transaction_def count_rejected_def perface_findMany_def
        store_two_active_def face_updateMany_def face_create_def perface_create_def Let_def)
  have call: "?svc 7 (buffer jpeg_ex) (display_name ?persona 7) net_ex
                = (fst (?svc 7 (buffer jpeg_ex) (display_name ?persona 7) net_ex),
                   snd (?svc 7 (buffer jpeg_ex) (display_name ?persona 7) net_ex))"
    by simp
  show ?thesis
    unfolding enroll_route_committed [where svc = "?svc", OF a p tx call]
    by (simp add: a l count_rejected_def failed_500_def enrollFace_unreachable Let_def)
qed

text \<open>
  Claim C10: the upload filter accepts image/png, and whatever the type and the bytes of
  the uploaded file, every request the endpoint makes the device client send carries the
  image as a data URL labelled image/jpeg; an enrollment answered with 200 has sent at
  least one.
\<close>

theorem mirrored_image_labelled_jpeg:
  fixes dev :: "'d device"
  assumes "enroll_route (enrollFace md5 rb now cfg dev) flt newId d pid (Some f) n = (rep, d', n')"
  shows "fileFilter ''image/png''
       \<and> (\<exists>reqs. sent n' = sent n @ reqs
              \<and> (reply_status rep = 200 \<longrightarrow> reqs \<noteq> [])
              \<and> list_all (\<lambda>req. \<exists>fd. data req = Some fd
                            \<and> faceURL fd = ''data:image/jpeg;base64,'' @ toString_base64 (buffer f))
                   reqs)"
proof
  show "fileFilter ''image/png''"
    by (simp add: fileFilter_def)
  from enroll_route_net [OF assms]
  consider "n' = n" "reply_status rep \<noteq> 200"
    | i persona called where
      "enrollFace md5 rb now cfg dev i (buffer f) (display_name persona i) n = (called, n')"
    by blast
  then show "\<exists>reqs. sent n' = sent n @ reqs
              \<and> (reply_status rep = 200 \<longrightarrow> reqs \<noteq> [])
              \<and> list_all (\<lambda>req. \<exists>fd. data req = Some fd
                            \<and> faceURL fd = ''data:image/jpeg;base64,'' @ toString_base64 (buffer f))
                   reqs"
  proof cases
    case 1
    then show ?thesis
      by (intro exI [of _ "[]"]) simp
  next
    case 2
    from enrollFace_requests [OF 2] obtain reqs where
      "sent n' = sent n @ reqs" and "reqs \<noteq> []"
      and "list_all (\<lambda>req. \<exists>fd. data req = Some fd
                            \<and> faceURL fd = ''data:image/jpeg;base64,'' @ toString_base64 (buffer f))
             reqs"
      by (auto simp: list_all_iff)
    then show ?thesis
      by blast
  qed
qed

theorem mirrored_image_labelled_jpeg_witness:
  "mimetype png_ex = ''image/png'' \<and> fileFilter (mimetype png_ex)
   \<and> reply_status (fst (enroll_route (enrollFace hash_ex random_ex now_ex cfg_ex digest_device)
                          no_faults 3 store_two_active (Some 7) (Some png_ex) net_ex)) = 200
   \<and> (\<exists>reqs. sent (snd (snd (enroll_route (enrollFace hash_ex random_ex now_ex cfg_ex digest_device)
                                 no_faults 3 store_two_active (Some 7) (Some png_ex) net_ex))) = reqs
          \<and> reqs \<noteq> []
          \<and> list_all (\<lambda>req. \<exists>fd. data req = Some fd
                        \<and> faceURL fd = ''data:image/jpeg;base64,iVBORw=='') reqs)"
proof -
  let ?svc = "enrollFace hash_ex random_ex now_ex cfg_ex digest_device"
  let ?run = "enroll_route ?svc no_faults 3 store_two_active (Some 7) (Some png_ex) net_ex"
  let ?persona = "\<lparr>personaID = 7, nombre = Some ''Jose'', apellido = Some ''Gonzalez''\<rparr>"
  have a: "fileFilter (mimetype png_ex)" "mimetype png_ex = ''image/png''"
    by (simp_all add: fileFilter_def png_ex_def)
  have p: "per_findUnique no_faults store_two_active 7 = Inr (Some ?persona)"
    by (simp add: per_findUnique_def per_lookup_def int32_def no_faults_def store_two_active_def)
  obtain nf committed where
    tx: "enroll_transaction no_faults 3 store_two_active 7 (buffer png_ex) = Inr (nf, committed)"
    by (simp add: enroll_transaction_def no_faults_def perface_findMany_def store_two_active_def
        face_updateMany_def face_create_def perface_create_def Let_def)
  have call: "?svc 7 (buffer png_ex) (display_name ?persona 7) net_ex
                = (fst (?svc 7 (buffer png_ex) (display_name ?persona 7) net_ex),
                   snd (?svc 7 (buffer png_ex) (display_name ?persona 7) net_ex))"
    by simp
  have ok: "reply_status (fst ?run) = 200"
    unfolding enroll_route_committed [where svc = "?svc", OF a(1) p tx call]
    by (simp add: no_faults_def)
  have b64: "toString_base64 (buffer png_ex) = ''iVBORw==''"
    by (simp add: png_ex_def b64_char_def)
  have run: "?run = (fst ?run, fst (snd ?run), snd (snd ?run))" by simp
  from mirrored_image_labelled_jpeg [OF run] ok a show ?thesis
    by (simp add: b64 net_ex_def)
qed

end
